theory Spec2Isabelle
  imports Main "HOL-Library.Word"
begin

section \<open>The authentication rate limiter (lib/rate-limit)\<close>

text \<open>
  Numbers are modelled as follows. \<^verbatim>\<open>Date.now()\<close> and every stored timestamp are
  natural numbers of milliseconds since the epoch; differences of timestamps are taken in
  \<open>int\<close>, as the JavaScript subtraction may be negative. Counters are \<open>int\<close>.
  All values stay far below \<open>2 ^ 53\<close>, where the double arithmetic of the source is exact.
\<close>

definition MAX_ATTEMPTS :: int where
  "MAX_ATTEMPTS = 5"

definition WINDOW_MS :: nat where
  "WINDOW_MS = 15 * 60 * 1000"

definition LOCKOUT_MS :: nat where
  "LOCKOUT_MS = 30 * 60 * 1000"

text \<open>\<^verbatim>\<open>Math.ceil(x / 1000)\<close> for an integer \<open>x\<close>.\<close>

definition ceil_seconds :: "int \<Rightarrow> int" where
  "ceil_seconds x = - ((- x) div 1000)"

datatype StorageType = memory | database | auto

record AttemptRecord =
  count :: int
  firstAttempt :: nat
  lockedUntil :: "nat option"

record RateLimitResult =
  isLimited :: bool
  retryAfter :: "int option"
  remainingAttempts :: "int option"

type_synonym attempts_map = "string \<Rightarrow> AttemptRecord option"

text \<open>
  An optional number used as a condition: \<^verbatim>\<open>undefined\<close>, \<^verbatim>\<open>null\<close> and \<open>0\<close> are falsy.
\<close>

definition truthy :: "nat option \<Rightarrow> bool" where
  "truthy v = (case v of None \<Rightarrow> False | Some n \<Rightarrow> n \<noteq> 0)"

text \<open>
  \<^verbatim>\<open>record.lockedUntil && now < record.lockedUntil\<close>: the end of the lock when the
  condition holds.
\<close>

definition activeLock :: "nat option \<Rightarrow> nat \<Rightarrow> nat option" where
  "activeLock l now =
     (case l of None \<Rightarrow> None | Some n \<Rightarrow> if n \<noteq> 0 \<and> now < n then Some n else None)"

text \<open>\<^verbatim>\<open>now - record.firstAttempt > WINDOW_MS\<close>\<close>

definition windowExpired :: "AttemptRecord \<Rightarrow> nat \<Rightarrow> bool" where
  "windowExpired r now = (int now - int (firstAttempt r) > int WINDOW_MS)"

text \<open>
  A string is a list of characters with codes 0 to 255, the first 256 code units of a
  JavaScript string. On these, \<^verbatim>\<open>String.prototype.toLowerCase\<close> maps the letters A to Z
  (65 to 90) and the capital letters of Latin-1 (192 to 222, but for the multiplication
  sign 215) to the character 32 places further, and keeps every other character.
\<close>

definition lowerChar :: "char \<Rightarrow> char" where
  "lowerChar c =
     (let n = (of_char c :: nat) in
      if (65 \<le> n \<and> n \<le> 90) \<or> (192 \<le> n \<and> n \<le> 222 \<and> n \<noteq> 215) then char_of (n + 32)
      else c)"

definition toLowerCase :: "string \<Rightarrow> string" where
  "toLowerCase s = map lowerChar s"

subsection \<open>MemoryStorage\<close>

text \<open>
  The class holds one private map \<^verbatim>\<open>attempts\<close>; the object is modelled by that map.
  The interval timer only calls \<open>cleanup\<close>, which is modelled as an operation of its own.
\<close>

definition mem_get :: "attempts_map \<Rightarrow> string \<Rightarrow> AttemptRecord option" where
  "mem_get a key = a key"

definition mem_set :: "attempts_map \<Rightarrow> string \<Rightarrow> AttemptRecord \<Rightarrow> attempts_map" where
  "mem_set a key r = a(key \<mapsto> r)"

definition mem_delete :: "attempts_map \<Rightarrow> string \<Rightarrow> attempts_map" where
  "mem_delete a key = a(key := None)"

definition mem_cleanup :: "attempts_map \<Rightarrow> nat \<Rightarrow> attempts_map" where
  "mem_cleanup a now = (\<lambda>key. case a key of None \<Rightarrow> None
     | Some r \<Rightarrow>
         if (\<not> truthy (lockedUntil r) \<and> windowExpired r now)
            \<or> (truthy (lockedUntil r) \<and> (case lockedUntil r of None \<Rightarrow> False | Some l \<Rightarrow> l < now))
         then None else Some r)"

subsection \<open>DatabaseStorage\<close>

text \<open>
  The object caches \<^verbatim>\<open>tableExists\<close>. The table \<^verbatim>\<open>RateLimitAttempt\<close> behind \<^verbatim>\<open>prisma\<close>
  is a map from the id to the record when it can be reached, and \<open>None\<close> when every query
  throws. Each method catches the exception of its query.
\<close>

record DatabaseStorage =
  tableExists :: "bool option"

definition newDatabaseStorage :: DatabaseStorage where
  "newDatabaseStorage = \<lparr>tableExists = None\<rparr>"

definition checkTableExists :: "DatabaseStorage \<Rightarrow> attempts_map option \<Rightarrow> bool \<times> DatabaseStorage" where
  "checkTableExists d tbl =
     (case tableExists d of
        Some b \<Rightarrow> (b, d)
      | None \<Rightarrow> (case tbl of
                   Some _ \<Rightarrow> (True, d\<lparr>tableExists := Some True\<rparr>)
                 | None \<Rightarrow> (False, d\<lparr>tableExists := Some False\<rparr>)))"

definition db_get ::
  "DatabaseStorage \<Rightarrow> attempts_map option \<Rightarrow> string \<Rightarrow> AttemptRecord option \<times> DatabaseStorage" where
  "db_get d tbl key =
     (let (ok, d') = checkTableExists d tbl in
      if \<not> ok then (None, d')
      else (case tbl of
              None \<Rightarrow> (None, d')
            | Some rows \<Rightarrow>
                (case rows key of
                   None \<Rightarrow> (None, d')
                 | Some r \<Rightarrow>
                     (Some \<lparr>count = count r, firstAttempt = firstAttempt r,
                            lockedUntil = (if truthy (lockedUntil r) then lockedUntil r else None)\<rparr>, d'))))"

definition db_set ::
  "DatabaseStorage \<Rightarrow> attempts_map option \<Rightarrow> string \<Rightarrow> AttemptRecord
     \<Rightarrow> attempts_map option \<times> DatabaseStorage" where
  "db_set d tbl key r =
     (let (ok, d') = checkTableExists d tbl in
      if \<not> ok then (tbl, d')
      else (case tbl of
              None \<Rightarrow> (None, d')
            | Some rows \<Rightarrow>
                (Some (rows(key \<mapsto> \<lparr>count = count r, firstAttempt = firstAttempt r,
                    lockedUntil = (if truthy (lockedUntil r) then lockedUntil r else None)\<rparr>)), d')))"

definition db_delete ::
  "DatabaseStorage \<Rightarrow> attempts_map option \<Rightarrow> string \<Rightarrow> attempts_map option \<times> DatabaseStorage" where
  "db_delete d tbl key =
     (let (ok, d') = checkTableExists d tbl in
      if \<not> ok then (tbl, d')
      else (case tbl of
              None \<Rightarrow> (None, d')
            | Some rows \<Rightarrow> (Some (rows(key := None)), d')))"

definition checkDatabaseAvailable :: "attempts_map option \<Rightarrow> bool" where
  "checkDatabaseAvailable tbl = (case tbl of Some _ \<Rightarrow> True | None \<Rightarrow> False)"

subsection \<open>The module state and the storage factory\<close>

text \<open>
  The module variables \<^verbatim>\<open>storage\<close>, \<^verbatim>\<open>databaseStorage\<close> and \<^verbatim>\<open>memoryStorage\<close>.
  \<^verbatim>\<open>storage\<close> is a reference to one of the two objects held by the other variables, so
  it is modelled by the name of the object it points to: once \<^verbatim>\<open>storage\<close> is set, neither
  of the other variables is assigned again. \<open>table\<close> is the database table of the
  environment, \<open>STORAGE_TYPE\<close> the configuration read at load time.
\<close>

datatype storage_ref = TheMemoryStorage | TheDatabaseStorage

record module_state =
  STORAGE_TYPE :: StorageType
  storage :: "storage_ref option"
  databaseStorage :: "DatabaseStorage option"
  memoryStorage :: "attempts_map option"
  table :: "attempts_map option"

definition initial_module :: "StorageType \<Rightarrow> attempts_map option \<Rightarrow> module_state" where
  "initial_module cfg tbl =
     \<lparr>STORAGE_TYPE = cfg, storage = None, databaseStorage = None, memoryStorage = None,
      table = tbl\<rparr>"

definition getStorage :: "module_state \<Rightarrow> storage_ref \<times> module_state" where
  "getStorage m =
     (case storage m of
        Some s \<Rightarrow> (s, m)
      | None \<Rightarrow>
          if STORAGE_TYPE m = database then
            (TheDatabaseStorage,
             m\<lparr>databaseStorage := Some newDatabaseStorage, storage := Some TheDatabaseStorage\<rparr>)
          else if STORAGE_TYPE m = auto then
            (let (testRecord, d) = db_get newDatabaseStorage (table m) ''__test__'' in
             if testRecord \<noteq> None \<or> checkDatabaseAvailable (table m) then
               (TheDatabaseStorage,
                m\<lparr>databaseStorage := Some d, storage := Some TheDatabaseStorage\<rparr>)
             else
               (TheMemoryStorage,
                m\<lparr>databaseStorage := Some d, memoryStorage := Some Map.empty,
                  storage := Some TheMemoryStorage\<rparr>))
          else
            (TheMemoryStorage,
             m\<lparr>memoryStorage := Some Map.empty, storage := Some TheMemoryStorage\<rparr>))"

definition getStorageSync :: "module_state \<Rightarrow> storage_ref \<times> module_state" where
  "getStorageSync m =
     (case storage m of
        Some s \<Rightarrow> (s, m)
      | None \<Rightarrow>
          (case memoryStorage m of
             None \<Rightarrow> (TheMemoryStorage, m\<lparr>memoryStorage := Some Map.empty\<rparr>)
           | Some _ \<Rightarrow> (TheMemoryStorage, m)))"

text \<open>
  The private map of the memory storage object, and an update of it in place. In a state
  the module can reach, a reference to the memory storage is only handed out after the
  object has been created; for the other states the map reads as empty.
\<close>

definition the_attempts :: "module_state \<Rightarrow> attempts_map" where
  "the_attempts m = (case memoryStorage m of None \<Rightarrow> Map.empty | Some a \<Rightarrow> a)"

definition with_attempts :: "(attempts_map \<Rightarrow> attempts_map) \<Rightarrow> module_state \<Rightarrow> module_state" where
  "with_attempts f m = m\<lparr>memoryStorage := Some (f (the_attempts m))\<rparr>"

text \<open>The three methods of the interface, dispatched on the object behind the reference.\<close>

definition store_get :: "storage_ref \<Rightarrow> string \<Rightarrow> module_state \<Rightarrow> AttemptRecord option \<times> module_state" where
  "store_get s key m =
     (case s of
        TheMemoryStorage \<Rightarrow> (mem_get (the_attempts m) key, m)
      | TheDatabaseStorage \<Rightarrow>
          (let d0 = (case databaseStorage m of None \<Rightarrow> newDatabaseStorage | Some d \<Rightarrow> d);
               (r, d) = db_get d0 (table m) key
           in (r, m\<lparr>databaseStorage := Some d\<rparr>)))"

definition store_set :: "storage_ref \<Rightarrow> string \<Rightarrow> AttemptRecord \<Rightarrow> module_state \<Rightarrow> module_state" where
  "store_set s key r m =
     (case s of
        TheMemoryStorage \<Rightarrow> with_attempts (\<lambda>a. mem_set a key r) m
      | TheDatabaseStorage \<Rightarrow>
          (let d0 = (case databaseStorage m of None \<Rightarrow> newDatabaseStorage | Some d \<Rightarrow> d);
               (tbl, d) = db_set d0 (table m) key r
           in m\<lparr>databaseStorage := Some d, table := tbl\<rparr>))"

definition store_delete :: "storage_ref \<Rightarrow> string \<Rightarrow> module_state \<Rightarrow> module_state" where
  "store_delete s key m =
     (case s of
        TheMemoryStorage \<Rightarrow> with_attempts (\<lambda>a. mem_delete a key) m
      | TheDatabaseStorage \<Rightarrow>
          (let d0 = (case databaseStorage m of None \<Rightarrow> newDatabaseStorage | Some d \<Rightarrow> d);
               (tbl, d) = db_delete d0 (table m) key
           in m\<lparr>databaseStorage := Some d, table := tbl\<rparr>))"

subsection \<open>The public API\<close>

definition notLimited :: "int \<Rightarrow> RateLimitResult" where
  "notLimited n = \<lparr>isLimited = False, retryAfter = None, remainingAttempts = Some n\<rparr>"

definition limited :: "int \<Rightarrow> RateLimitResult" where
  "limited s = \<lparr>isLimited = True, retryAfter = Some s, remainingAttempts = None\<rparr>"

definition checkRateLimitSync ::
  "storage_ref \<Rightarrow> string \<Rightarrow> nat \<Rightarrow> module_state \<Rightarrow> RateLimitResult \<times> module_state" where
  "checkRateLimitSync store key now m =
     (case store of
        TheDatabaseStorage \<Rightarrow> (notLimited MAX_ATTEMPTS, m)
      | TheMemoryStorage \<Rightarrow>
          (case the_attempts m key of
             None \<Rightarrow> (notLimited MAX_ATTEMPTS, m)
           | Some r \<Rightarrow>
               (case activeLock (lockedUntil r) now of
                  Some l \<Rightarrow> (limited (ceil_seconds (int l - int now)), m)
                | None \<Rightarrow>
                    if windowExpired r now then
                      (notLimited MAX_ATTEMPTS, with_attempts (\<lambda>a. a(key := None)) m)
                    else if count r \<ge> MAX_ATTEMPTS then
                      (limited (ceil_seconds (int LOCKOUT_MS)),
                       with_attempts (\<lambda>a. a(key \<mapsto> r\<lparr>lockedUntil := Some (now + LOCKOUT_MS)\<rparr>)) m)
                    else
                      (notLimited (MAX_ATTEMPTS - count r), m))))"

definition checkRateLimit :: "string \<Rightarrow> nat \<Rightarrow> module_state \<Rightarrow> RateLimitResult \<times> module_state" where
  "checkRateLimit email now m =
     (let (store, m') = getStorageSync m in
      checkRateLimitSync store (toLowerCase email) now m')"

definition checkRateLimitAsync :: "string \<Rightarrow> nat \<Rightarrow> module_state \<Rightarrow> RateLimitResult \<times> module_state" where
  "checkRateLimitAsync email now m =
     (let (store, m1) = getStorage m;
          key = toLowerCase email;
          (rec, m2) = store_get store key m1
      in case rec of
           None \<Rightarrow> (notLimited MAX_ATTEMPTS, m2)
         | Some r \<Rightarrow>
             (case activeLock (lockedUntil r) now of
                Some l \<Rightarrow> (limited (ceil_seconds (int l - int now)), m2)
              | None \<Rightarrow>
                  if windowExpired r now then
                    (notLimited MAX_ATTEMPTS, store_delete store key m2)
                  else if count r \<ge> MAX_ATTEMPTS then
                    (limited (ceil_seconds (int LOCKOUT_MS)),
                     store_set store key (r\<lparr>lockedUntil := Some (now + LOCKOUT_MS)\<rparr>) m2)
                  else
                    (notLimited (MAX_ATTEMPTS - count r), m2)))"

definition recordFailedAttemptAsync :: "string \<Rightarrow> nat \<Rightarrow> module_state \<Rightarrow> module_state" where
  "recordFailedAttemptAsync email now m =
     (let (store, m1) = getStorage m;
          key = toLowerCase email;
          (rec, m2) = store_get store key m1
      in case rec of
           None \<Rightarrow> store_set store key \<lparr>count = 1, firstAttempt = now, lockedUntil = None\<rparr> m2
         | Some r \<Rightarrow>
             if windowExpired r now then
               store_set store key \<lparr>count = 1, firstAttempt = now, lockedUntil = None\<rparr> m2
             else
               (let r1 = r\<lparr>count := count r + 1\<rparr>;
                    r2 = (if count r1 \<ge> MAX_ATTEMPTS
                          then r1\<lparr>lockedUntil := Some (now + LOCKOUT_MS)\<rparr> else r1)
                in store_set store key r2 m2))"

text \<open>
  In the branch for the database storage the source starts the asynchronous version and
  does not wait for it; the model runs it to its end at once.
\<close>

definition recordFailedAttempt :: "string \<Rightarrow> nat \<Rightarrow> module_state \<Rightarrow> module_state" where
  "recordFailedAttempt email now m =
     (let key = toLowerCase email;
          (store, m1) = getStorageSync m
      in case store of
           TheMemoryStorage \<Rightarrow>
             (case the_attempts m1 key of
                None \<Rightarrow>
                  with_attempts (\<lambda>a. a(key \<mapsto> \<lparr>count = 1, firstAttempt = now, lockedUntil = None\<rparr>)) m1
              | Some r \<Rightarrow>
                  if windowExpired r now then
                    with_attempts (\<lambda>a. a(key \<mapsto> \<lparr>count = 1, firstAttempt = now, lockedUntil = None\<rparr>)) m1
                  else
                    (let r1 = r\<lparr>count := count r + 1\<rparr>;
                         r2 = (if count r1 \<ge> MAX_ATTEMPTS
                               then r1\<lparr>lockedUntil := Some (now + LOCKOUT_MS)\<rparr> else r1)
                     in with_attempts (\<lambda>a. a(key \<mapsto> r2)) m1))
         | TheDatabaseStorage \<Rightarrow> recordFailedAttemptAsync email now m1)"

definition clearAttemptsAsync :: "string \<Rightarrow> module_state \<Rightarrow> module_state" where
  "clearAttemptsAsync email m =
     (let (store, m1) = getStorage m in store_delete store (toLowerCase email) m1)"

definition clearAttempts :: "string \<Rightarrow> module_state \<Rightarrow> module_state" where
  "clearAttempts email m =
     (let key = toLowerCase email;
          (store, m1) = getStorageSync m
      in case store of
           TheMemoryStorage \<Rightarrow> with_attempts (\<lambda>a. a(key := None)) m1
         | TheDatabaseStorage \<Rightarrow> clearAttemptsAsync email m1)"

text \<open>
  A run of failed logins, as the loop \<^verbatim>\<open>for (...) recordFailedAttempt(testEmail)\<close> of
  the tests: one call for each clock reading of the list.
\<close>

definition recordFailures :: "string \<Rightarrow> nat list \<Rightarrow> module_state \<Rightarrow> module_state" where
  "recordFailures email ts m = fold (recordFailedAttempt email) ts m"


subsection \<open>Sequences of calls and what a caller observes\<close>

text \<open>
  A call of one of the six exported functions with its argument and, where the function
  reads the clock, the value of \<^verbatim>\<open>Date.now()\<close>. A caller observes the returned object of
  a check and nothing of the other functions, which return \<^verbatim>\<open>void\<close>.
\<close>

datatype call =
    CheckRateLimit string nat
  | RecordFailedAttempt string nat
  | ClearAttempts string
  | CheckRateLimitAsync string nat
  | RecordFailedAttemptAsync string nat
  | ClearAttemptsAsync string

datatype observation = Returned RateLimitResult | ReturnedVoid

fun perform :: "call \<Rightarrow> module_state \<Rightarrow> observation \<times> module_state" where
  "perform (CheckRateLimit email now) m =
     (let (r, m') = checkRateLimit email now m in (Returned r, m'))"
| "perform (RecordFailedAttempt email now) m = (ReturnedVoid, recordFailedAttempt email now m)"
| "perform (ClearAttempts email) m = (ReturnedVoid, clearAttempts email m)"
| "perform (CheckRateLimitAsync email now) m =
     (let (r, m') = checkRateLimitAsync email now m in (Returned r, m'))"
| "perform (RecordFailedAttemptAsync email now) m =
     (ReturnedVoid, recordFailedAttemptAsync email now m)"
| "perform (ClearAttemptsAsync email) m = (ReturnedVoid, clearAttemptsAsync email m)"

fun run :: "call list \<Rightarrow> module_state \<Rightarrow> observation list" where
  "run [] m = []"
| "run (c # cs) m = (let (ob, m') = perform c m in ob # run cs m')"

text \<open>
  The module under \<^verbatim>\<open>RATE_LIMIT_STORAGE=database\<close> with an empty, reachable table, after
  the storage factory has run.
\<close>

definition database_module :: module_state where
  "database_module = snd (getStorage (initial_module database (Some Map.empty)))"

text \<open>
  The module with the default in-memory store after five failed logins of one identity
  between the clock readings 1000 and 5000.
\<close>

definition locked_module :: module_state where
  "locked_module =
     recordFailures ''ann@example.org'' [1000, 2000, 3000, 4000, 5000] (initial_module memory None)"

text \<open>
  Two module states agree on everything the memory storage path reads, the first one
  configured as \<^verbatim>\<open>auto\<close> with a table that cannot be reached, the second as \<^verbatim>\<open>memory\<close>.
\<close>

definition sim :: "module_state \<Rightarrow> module_state \<Rightarrow> bool" where
  "sim a b \<longleftrightarrow> storage a = storage b \<and> memoryStorage a = memoryStorage b
      \<and> storage a \<noteq> Some TheDatabaseStorage
      \<and> STORAGE_TYPE a = auto \<and> table a = None \<and> STORAGE_TYPE b = memory"

section \<open>The operation rate-limit middleware (trpc/init)\<close>

text \<open>
  A number in a template literal: the decimal digits, with a sign for a negative number,
  and \<^verbatim>\<open>undefined\<close> for a missing one.
\<close>

definition digitChar :: "nat \<Rightarrow> char" where
  "digitChar d = ''0123456789'' ! (d mod 10)"

fun decimal :: "nat \<Rightarrow> string" where
  "decimal n = (if n < 10 then [digitChar n] else decimal (n div 10) @ [digitChar n])"

declare decimal.simps [simp del]

definition string_of_number :: "int option \<Rightarrow> string" where
  "string_of_number v =
     (case v of
        None \<Rightarrow> ''undefined''
      | Some i \<Rightarrow> if i < 0 then CHR ''-'' # decimal (nat (- i)) else decimal (nat i))"

text \<open>
  The input of a procedure, parsed or raw, as far as the middleware reads it: the field
  \<^verbatim>\<open>groupId\<close>, a string when it is there. \<^verbatim>\<open>inputData?.groupId\<close> is falsy when the input
  is \<^verbatim>\<open>undefined\<close>, when it has no \<^verbatim>\<open>groupId\<close> and when the \<^verbatim>\<open>groupId\<close> is the empty
  string.
\<close>

record payload =
  groupId :: "string option"

definition truthyGroupId :: "payload option \<Rightarrow> string option" where
  "truthyGroupId inputData =
     (case inputData of
        None \<Rightarrow> None
      | Some p \<Rightarrow> (case groupId p of
                    None \<Rightarrow> None
                  | Some g \<Rightarrow> if g = [] then None else Some g))"

datatype trpc_code = TOO_MANY_REQUESTS | UNAUTHORIZED | FORBIDDEN | NOT_FOUND

datatype TRPCError = TRPCError trpc_code string

datatype mw_event =
    CheckOperationRateLimit string int int
  | RecordOperationAttempt string int int
  | Next

text \<open>
  \<^verbatim>\<open>checkOperationRateLimit\<close> and \<^verbatim>\<open>recordOperationAttempt\<close> are imported from the rate
  limit library and are parameters here, over a limiter state \<open>'s\<close> of their own; \<open>next\<close>
  is the rest of the procedure, the input validation and the handler. The middleware
  returns the error it throws or the result of \<open>next\<close>, the state, and the calls it made
  in their order.
\<close>

definition createRateLimitMiddleware ::
  "(string \<Rightarrow> int \<Rightarrow> int \<Rightarrow> 's \<Rightarrow> RateLimitResult \<times> 's) \<Rightarrow>
   (string \<Rightarrow> int \<Rightarrow> int \<Rightarrow> 's \<Rightarrow> 's) \<Rightarrow>
   string \<Rightarrow> int \<Rightarrow> int \<Rightarrow>
   payload option \<Rightarrow> payload option \<Rightarrow> ('s \<Rightarrow> 'r \<times> 's) \<Rightarrow> 's \<Rightarrow>
   (TRPCError + 'r) \<times> 's \<times> mw_event list" where
  "createRateLimitMiddleware checkOperationRateLimit recordOperationAttempt
       operation maxAttempts windowMs input rawInput next s =
     (let inputData = (if truthyGroupId input = None then rawInput else input) in
      case truthyGroupId inputData of
        None \<Rightarrow> (let (r, s') = next s in (Inr r, s', [Next]))
      | Some g \<Rightarrow>
          (let key = operation @ '':'' @ g;
               (res, s1) = checkOperationRateLimit key maxAttempts windowMs s
           in if isLimited res then
                (Inl (TRPCError TOO_MANY_REQUESTS
                   (''Too many '' @ operation @ '' attempts. Please try again in ''
                      @ string_of_number (retryAfter res) @ '' seconds.'')),
                 s1, [CheckOperationRateLimit key maxAttempts windowMs])
              else
                (let s2 = recordOperationAttempt key maxAttempts windowMs s1;
                     (r, s3) = next s2
                 in (Inr r, s3,
                     [CheckOperationRateLimit key maxAttempts windowMs,
                      RecordOperationAttempt key maxAttempts windowMs, Next]))))"

text \<open>The limit of the procedure that creates an expense: 100 per hour and group.\<close>

definition HOUR_MS :: int where
  "HOUR_MS = 60 * 60 * 1000"

definition createGroupExpenseLimit ::
  "(string \<Rightarrow> int \<Rightarrow> int \<Rightarrow> 's \<Rightarrow> RateLimitResult \<times> 's) \<Rightarrow>
   (string \<Rightarrow> int \<Rightarrow> int \<Rightarrow> 's \<Rightarrow> 's) \<Rightarrow>
   payload option \<Rightarrow> payload option \<Rightarrow> ('s \<Rightarrow> 'r \<times> 's) \<Rightarrow> 's \<Rightarrow>
   (TRPCError + 'r) \<times> 's \<times> mw_event list" where
  "createGroupExpenseLimit checkOperationRateLimit recordOperationAttempt =
     createRateLimitMiddleware checkOperationRateLimit recordOperationAttempt
       ''create-expense'' 100 HOUR_MS"

text \<open>
  A limiter to run the middleware on: the state counts the recorded attempts of each key,
  the check reports limited from \<open>maxAttempts\<close> recorded attempts on, with a retry time of
  one window. It stands in for the imported functions in closed examples only.
\<close>

definition sample_check :: "string \<Rightarrow> int \<Rightarrow> int \<Rightarrow> (string \<Rightarrow> int) \<Rightarrow> RateLimitResult \<times> (string \<Rightarrow> int)" where
  "sample_check key maxAttempts windowMs s =
     (if s key \<ge> maxAttempts then (limited (ceil_seconds windowMs), s)
      else (notLimited (maxAttempts - s key), s))"

definition sample_record :: "string \<Rightarrow> int \<Rightarrow> int \<Rightarrow> (string \<Rightarrow> int) \<Rightarrow> (string \<Rightarrow> int)" where
  "sample_record key maxAttempts windowMs s = s(key := s key + 1)"

definition sample_next :: "(string \<Rightarrow> int) \<Rightarrow> string \<times> (string \<Rightarrow> int)" where
  "sample_next s = (''handled'', s)"

definition no_attempts :: "string \<Rightarrow> int" where
  "no_attempts key = 0"

definition exhausted :: "string \<Rightarrow> int" where
  "exhausted key = 100"

section \<open>The password prompt (client-side unlock)\<close>

definition RATE_LIMIT_ATTEMPTS :: nat where
  "RATE_LIMIT_ATTEMPTS = 5"

definition RATE_LIMIT_WINDOW_MS :: nat where
  "RATE_LIMIT_WINDOW_MS = 60000"

definition LOCKOUT_DURATION_MS :: nat where
  "LOCKOUT_DURATION_MS = 300000"

definition ENCRYPTION_KEY_PREFIX :: string where
  "ENCRYPTION_KEY_PREFIX = ''spliit-e2ee-key-''"

definition SESSION_PWD_KEY_PREFIX :: string where
  "SESSION_PWD_KEY_PREFIX = ''spliit-pwd-key-''"

definition getStorageKey :: "string \<Rightarrow> string" where
  "getStorageKey gid = ''password-lockout:'' @ gid"

text \<open>A \<^verbatim>\<open>Uint8Array\<close>.\<close>

type_synonym bytes = "8 word list"

text \<open>
  A call that may throw (or a promise that may reject): \<open>Threw\<close>, or the value.
\<close>

datatype 'a outcome = Threw | Value 'a

subsection \<open>Browser storage\<close>

text \<open>
  \<^verbatim>\<open>localStorage\<close> and \<^verbatim>\<open>sessionStorage\<close>: the stored items, and whether reading and
  writing work. Where they do not (storage disabled or blocked, quota exceeded),
  \<^verbatim>\<open>getItem\<close> and \<^verbatim>\<open>setItem\<close> throw.
\<close>

record WebStorage =
  canRead :: bool
  canWrite :: bool
  items :: "string \<Rightarrow> string option"

definition getItem :: "WebStorage \<Rightarrow> string \<Rightarrow> string option outcome" where
  "getItem st key = (if canRead st then Value (items st key) else Threw)"

definition setItem :: "WebStorage \<Rightarrow> string \<Rightarrow> string \<Rightarrow> WebStorage outcome" where
  "setItem st key v = (if canWrite st then Value (st\<lparr>items := (items st)(key \<mapsto> v)\<rparr>) else Threw)"

record browser =
  localStorage :: WebStorage
  sessionStorage :: WebStorage

text \<open>
  The persisted \<^verbatim>\<open>RateLimitState\<close>; its fields \<^verbatim>\<open>attempts\<close> and \<^verbatim>\<open>lockedUntil\<close> carry a
  prefix here, as the state variables of the component have the same names.
  \<^verbatim>\<open>JSON.stringify\<close> and \<^verbatim>\<open>JSON.parse\<close> are parameters; \<open>parse\<close> throws on a string that
  is not JSON.
\<close>

record RateLimitState =
  rls_attempts :: "nat list"
  rls_lockedUntil :: "nat option"

definition loadRateLimitState ::
  "(string \<Rightarrow> RateLimitState outcome) \<Rightarrow> WebStorage \<Rightarrow> string \<Rightarrow> RateLimitState option" where
  "loadRateLimitState parse ls gid =
     (case getItem ls (getStorageKey gid) of
        Threw \<Rightarrow> None
      | Value None \<Rightarrow> None
      | Value (Some stored) \<Rightarrow>
          if stored = [] then None
          else (case parse stored of Threw \<Rightarrow> None | Value state \<Rightarrow> Some state))"

definition saveRateLimitState ::
  "(RateLimitState \<Rightarrow> string) \<Rightarrow> WebStorage \<Rightarrow> string \<Rightarrow> RateLimitState \<Rightarrow> WebStorage" where
  "saveRateLimitState stringify ls gid state =
     (case setItem ls (getStorageKey gid) (stringify state) of
        Threw \<Rightarrow> ls
      | Value ls' \<Rightarrow> ls')"

subsection \<open>The component\<close>

text \<open>
  The properties of the component that the submit handler reads. \<^verbatim>\<open>groupId\<close> is named
  \<open>promptGroupId\<close>, as the input of the middleware has a field of that name.
\<close>

record PasswordPromptProps =
  promptGroupId :: string
  passwordSalt :: string
  urlKey :: "bytes option"
  encryptedGroupName :: "string option"

text \<open>
  The state variables of the component (\<^verbatim>\<open>lockedUntil\<close> is named \<open>lockedUntilState\<close>).
  \<open>error\<close> holds the key of the translated message.
\<close>

record prompt_state =
  password :: string
  isLoading :: bool
  error :: "string option"
  attempts :: "nat list"
  lockedUntilState :: "nat option"

text \<open>
  The functions of the crypto library, parameters of the model. All but \<^verbatim>\<open>keyToBase64\<close>
  may throw: \<^verbatim>\<open>base64ToKey\<close> on a salt that is not base64, \<^verbatim>\<open>combineKeys\<close> on keys of
  different lengths, \<^verbatim>\<open>decrypt\<close> on a wrong key or a malformed ciphertext.
\<close>

record crypto =
  base64ToKey :: "string \<Rightarrow> bytes outcome"
  deriveKeyFromPassword :: "string \<Rightarrow> bytes \<Rightarrow> nat \<Rightarrow> bytes outcome"
  combineKeys :: "bytes \<Rightarrow> bytes \<Rightarrow> bytes outcome"
  decrypt :: "string \<Rightarrow> bytes \<Rightarrow> string outcome"
  keyToBase64 :: "bytes \<Rightarrow> string"

text \<open>
  The calls to the outside that one submission makes, in their order; a call is listed
  whether it returns or throws.
\<close>

datatype event =
    DeriveKeyFromPassword string bytes nat
  | CombineKeys bytes bytes
  | Decrypt string bytes
  | LocalSetItem string string
  | SessionSetItem string string
  | OnSuccess bytes

text \<open>
  The readings of \<^verbatim>\<open>Date.now()\<close> during one submission: in \<^verbatim>\<open>isRateLimited\<close>, in the
  branch of the handler that starts a lockout, and when a failed attempt is appended.
\<close>

record clock =
  tCheck :: nat
  tLockout :: nat
  tFailure :: nat

text \<open>
  \<^verbatim>\<open>String.prototype.trim\<close> removes white space and line terminators from both ends.
  Among the characters with codes 0 to 255 these are the tab, the line feed, the
  vertical tab, the form feed, the carriage return (9 to 13), the space (32) and the
  no-break space (160).
\<close>

definition isWhiteSpace :: "char \<Rightarrow> bool" where
  "isWhiteSpace c = ((of_char c :: nat) \<in> {9, 10, 11, 12, 13, 32, 160})"

definition trim :: "string \<Rightarrow> string" where
  "trim s = rev (dropWhile isWhiteSpace (rev (dropWhile isWhiteSpace s)))"

text \<open>The effect that restores the persisted state when the component mounts.\<close>

definition restoreRateLimitState ::
  "(string \<Rightarrow> RateLimitState outcome) \<Rightarrow> WebStorage \<Rightarrow> string \<Rightarrow> nat \<Rightarrow> prompt_state \<Rightarrow> prompt_state" where
  "restoreRateLimitState parse ls gid now st =
     (case loadRateLimitState parse ls gid of
        None \<Rightarrow> st
      | Some stored \<Rightarrow>
          (let st1 = (case activeLock (rls_lockedUntil stored) now of
                        Some l \<Rightarrow> st\<lparr>lockedUntilState := rls_lockedUntil stored\<rparr>
                      | None \<Rightarrow> st);
               recentAttempts =
                 filter (\<lambda>time. int now - int time < int RATE_LIMIT_WINDOW_MS) (rls_attempts stored)
           in if length recentAttempts > 0 then st1\<lparr>attempts := recentAttempts\<rparr> else st1))"

text \<open>The effect that persists \<^verbatim>\<open>attempts\<close> and \<^verbatim>\<open>lockedUntil\<close> when they change.\<close>

definition persistRateLimitState ::
  "(RateLimitState \<Rightarrow> string) \<Rightarrow> string \<Rightarrow> prompt_state \<Rightarrow> WebStorage \<Rightarrow> WebStorage" where
  "persistRateLimitState stringify gid st ls =
     saveRateLimitState stringify ls gid
       \<lparr>rls_attempts = attempts st, rls_lockedUntil = lockedUntilState st\<rparr>"

definition isRateLimited :: "nat \<Rightarrow> prompt_state \<Rightarrow> bool \<times> prompt_state" where
  "isRateLimited now st =
     (case activeLock (lockedUntilState st) now of
        Some l \<Rightarrow> (True, st)
      | None \<Rightarrow>
          (let recentAttempts =
                 filter (\<lambda>time. int now - int time < int RATE_LIMIT_WINDOW_MS) (attempts st)
           in (length recentAttempts \<ge> RATE_LIMIT_ATTEMPTS, st\<lparr>attempts := recentAttempts\<rparr>)))"

text \<open>
  What both \<^verbatim>\<open>catch\<close> blocks of the handler do, followed by the \<^verbatim>\<open>finally\<close> block: the
  failed attempt is appended, the invalid-password error is set, the input is cleared.
\<close>

definition recordInvalid :: "nat \<Rightarrow> prompt_state \<Rightarrow> prompt_state" where
  "recordInvalid now st =
     st\<lparr>attempts := attempts st @ [now], error := Some ''errors.invalid'', password := [],
        isLoading := False\<rparr>"

text \<open>
  The first block of the \<^verbatim>\<open>try\<close>: the salt is decoded, the password key is derived with
  the length of the URL key (32 bytes without one), and combined with the URL key when
  there is one. The result is the pair of \<^verbatim>\<open>passwordKey\<close> and \<^verbatim>\<open>finalKey\<close>, or \<open>Threw\<close>.
\<close>

definition deriveKeys ::
  "crypto \<Rightarrow> PasswordPromptProps \<Rightarrow> string \<Rightarrow> (bytes \<times> bytes) outcome \<times> event list" where
  "deriveKeys c props pw =
     (case base64ToKey c (passwordSalt props) of
        Threw \<Rightarrow> (Threw, [])
      | Value salt \<Rightarrow>
          (let keyLengthBytes = (case urlKey props of Some u \<Rightarrow> length u | None \<Rightarrow> 32);
               ev = [DeriveKeyFromPassword pw salt keyLengthBytes]
           in case deriveKeyFromPassword c pw salt keyLengthBytes of
                Threw \<Rightarrow> (Threw, ev)
              | Value passwordKey \<Rightarrow>
                  (case urlKey props of
                     None \<Rightarrow> (Value (passwordKey, passwordKey), ev)
                   | Some u \<Rightarrow>
                       (case combineKeys c u passwordKey of
                          Threw \<Rightarrow> (Threw, ev @ [CombineKeys u passwordKey])
                        | Value finalKey \<Rightarrow>
                            (Value (passwordKey, finalKey), ev @ [CombineKeys u passwordKey])))))"

text \<open>
  The verification: with an encrypted group name (\<^verbatim>\<open>null\<close>, \<^verbatim>\<open>undefined\<close> and the empty
  string are falsy) the name is decrypted with the final key, and an exception means a
  wrong password; without one nothing is checked.
\<close>

definition verifyPassword ::
  "crypto \<Rightarrow> PasswordPromptProps \<Rightarrow> bytes \<Rightarrow> bool \<times> event list" where
  "verifyPassword c props finalKey =
     (case encryptedGroupName props of
        None \<Rightarrow> (True, [])
      | Some n \<Rightarrow>
          if n = [] then (True, [])
          else (case decrypt c n finalKey of
                  Threw \<Rightarrow> (False, [Decrypt n finalKey])
                | Value plain \<Rightarrow> (True, [Decrypt n finalKey])))"

text \<open>
  The keys are saved: the final key in \<^verbatim>\<open>localStorage\<close>, inside a \<^verbatim>\<open>try\<close> whose \<^verbatim>\<open>catch\<close>
  is empty, then the password key in \<^verbatim>\<open>sessionStorage\<close>, with no \<^verbatim>\<open>try\<close> of its own. The
  result says whether the block ran to its end.
\<close>

definition saveKeys ::
  "crypto \<Rightarrow> PasswordPromptProps \<Rightarrow> bytes \<Rightarrow> bytes \<Rightarrow> browser \<Rightarrow> bool \<times> browser \<times> event list" where
  "saveKeys c props passwordKey finalKey br =
     (let keyBase64 = keyToBase64 c finalKey;
          localKey = ENCRYPTION_KEY_PREFIX @ promptGroupId props;
          br1 = (case setItem (localStorage br) localKey keyBase64 of
                   Threw \<Rightarrow> br
                 | Value ls \<Rightarrow> br\<lparr>localStorage := ls\<rparr>);
          sessionKey = SESSION_PWD_KEY_PREFIX @ promptGroupId props;
          pwdBase64 = keyToBase64 c passwordKey;
          ev = [LocalSetItem localKey keyBase64, SessionSetItem sessionKey pwdBase64]
      in case setItem (sessionStorage br1) sessionKey pwdBase64 of
           Threw \<Rightarrow> (False, br1, ev)
         | Value ss \<Rightarrow> (True, br1\<lparr>sessionStorage := ss\<rparr>, ev))"

text \<open>
  \<^verbatim>\<open>handleSubmit\<close>. The result is the state of the component after the handler, the
  browser storage, and the calls made. An exception of \<^verbatim>\<open>decrypt\<close> is caught by the inner
  \<^verbatim>\<open>catch\<close>; every other exception inside the outer \<^verbatim>\<open>try\<close>, that of
  \<^verbatim>\<open>sessionStorage.setItem\<close> among them, reaches the outer \<^verbatim>\<open>catch\<close>. The continuation
  \<^verbatim>\<open>onSuccess\<close> is a call of the trace.
\<close>

definition handleSubmit ::
  "crypto \<Rightarrow> PasswordPromptProps \<Rightarrow> clock \<Rightarrow> prompt_state \<Rightarrow> browser
     \<Rightarrow> prompt_state \<times> browser \<times> event list" where
  "handleSubmit c props clk st br =
     (if trim (password st) = [] then (st\<lparr>error := Some ''errors.empty''\<rparr>, br, [])
      else
       (let (blocked, st1) = isRateLimited (tCheck clk) st in
        if blocked then
          (let st2 = (case activeLock (lockedUntilState st) (tLockout clk) of
                        None \<Rightarrow> st1\<lparr>lockedUntilState := Some (tLockout clk + LOCKOUT_DURATION_MS)\<rparr>
                      | Some l \<Rightarrow> st1)
           in (st2\<lparr>error := Some ''errors.tooManyAttempts''\<rparr>, br, []))
        else
          (let st2 = st1\<lparr>isLoading := True, error := None\<rparr> in
           case deriveKeys c props (password st) of
             (Threw, ev1) \<Rightarrow> (recordInvalid (tFailure clk) st2, br, ev1)
           | (Value (passwordKey, finalKey), ev1) \<Rightarrow>
               (case verifyPassword c props finalKey of
                  (False, ev2) \<Rightarrow> (recordInvalid (tFailure clk) st2, br, ev1 @ ev2)
                | (True, ev2) \<Rightarrow>
                    (case saveKeys c props passwordKey finalKey br of
                       (False, br', ev3) \<Rightarrow>
                         (recordInvalid (tFailure clk) st2, br', ev1 @ ev2 @ ev3)
                     | (True, br', ev3) \<Rightarrow>
                         (st2\<lparr>isLoading := False\<rparr>, br',
                          ev1 @ ev2 @ ev3 @ [OnSuccess finalKey]))))))"

text \<open>\<^verbatim>\<open>remainingLockoutTime\<close>, computed at each render from the state and the clock.\<close>

definition remainingLockoutTime :: "prompt_state \<Rightarrow> nat \<Rightarrow> int" where
  "remainingLockoutTime st now =
     (case lockedUntilState st of
        None \<Rightarrow> 0
      | Some l \<Rightarrow> if l = 0 then 0 else max 0 (ceil_seconds (int l - int now)))"

text \<open>Which calls of a trace are of one kind.\<close>

fun isOnSuccess :: "event \<Rightarrow> bool" where
  "isOnSuccess (OnSuccess k) = True"
| "isOnSuccess e = False"

fun isDecrypt :: "event \<Rightarrow> bool" where
  "isDecrypt (Decrypt n k) = True"
| "isDecrypt e = False"

subsection \<open>Concrete inputs for the examples\<close>

text \<open>
  A stand-in for the crypto library, to run the handler on concrete inputs: the derived
  key repeats the length of the password, keys are combined byte by byte, and exactly
  the key derived from a password of seven characters decrypts.
\<close>

definition toy_crypto :: crypto where
  "toy_crypto =
     \<lparr>base64ToKey = (\<lambda>s. Value (map (\<lambda>ch. of_nat (of_char ch)) s)),
      deriveKeyFromPassword = (\<lambda>pw salt n. Value (replicate n (of_nat (length pw)))),
      combineKeys = (\<lambda>a b. if length a = length b then Value (map2 (+) a b) else Threw),
      decrypt = (\<lambda>ct key. if key = replicate 32 7 then Value ''Trip to Rome'' else Threw),
      keyToBase64 = (\<lambda>k. map (\<lambda>w. char_of (unat w)) k)\<rparr>"

definition empty_storage :: WebStorage where
  "empty_storage = \<lparr>canRead = True, canWrite = True, items = Map.empty\<rparr>"

definition blocked_storage :: WebStorage where
  "blocked_storage = \<lparr>canRead = False, canWrite = False, items = Map.empty\<rparr>"

definition working_browser :: browser where
  "working_browser = \<lparr>localStorage = empty_storage, sessionStorage = empty_storage\<rparr>"

definition session_blocked_browser :: browser where
  "session_blocked_browser = \<lparr>localStorage = empty_storage, sessionStorage = blocked_storage\<rparr>"

definition legacy_group :: PasswordPromptProps where
  "legacy_group =
     \<lparr>promptGroupId = ''g1'', passwordSalt = ''c2FsdA=='', urlKey = None,
      encryptedGroupName = None\<rparr>"

definition encrypted_group :: PasswordPromptProps where
  "encrypted_group =
     \<lparr>promptGroupId = ''g2'', passwordSalt = ''c2FsdA=='', urlKey = None,
      encryptedGroupName = Some ''sealed''\<rparr>"

definition submit_clock :: clock where
  "submit_clock = \<lparr>tCheck = 6000, tLockout = 6000, tFailure = 6200\<rparr>"

definition first_try :: prompt_state where
  "first_try =
     \<lparr>password = ''hunter2'', isLoading = False, error = None, attempts = [],
      lockedUntilState = None\<rparr>"

definition five_failures :: prompt_state where
  "five_failures =
     \<lparr>password = ''hunter2'', isLoading = False, error = None,
      attempts = [1000, 2000, 3000, 4000, 5000], lockedUntilState = None\<rparr>"

definition five_failures_blank :: prompt_state where
  "five_failures_blank = five_failures\<lparr>password := ''  ''\<rparr>"

section \<open>Properties of the rate limiter\<close>

subsection \<open>The storage reference\<close>

lemma the_attempts_with [simp]: "the_attempts (with_attempts f m) = f (the_attempts m)"
  by (simp add: the_attempts_def with_attempts_def)

lemma storage_with [simp]: "storage (with_attempts f m) = storage m"
  by (simp add: with_attempts_def)

lemma storage_ref_cases:
  assumes "storage m \<noteq> Some TheDatabaseStorage"
  shows "storage m = None \<or> storage m = Some TheMemoryStorage"
proof (cases "storage m")
  case None
  then show ?thesis by simp
next
  case (Some s)
  with assms show ?thesis by (cases s) auto
qed

lemma getStorageSync_db:
  "storage m = Some TheDatabaseStorage \<Longrightarrow> getStorageSync m = (TheDatabaseStorage, m)"
  by (simp add: getStorageSync_def)

lemma getStorageSync_mem:
  assumes "storage m \<noteq> Some TheDatabaseStorage"
  shows "fst (getStorageSync m) = TheMemoryStorage"
    and "the_attempts (snd (getStorageSync m)) = the_attempts m"
    and "storage (snd (getStorageSync m)) = storage m"
proof -
  show "fst (getStorageSync m) = TheMemoryStorage"
    using storage_ref_cases[OF assms]
    by (cases "memoryStorage m") (auto simp: getStorageSync_def)
  show "the_attempts (snd (getStorageSync m)) = the_attempts m"
    by (cases "storage m"; cases "memoryStorage m")
      (auto simp: getStorageSync_def the_attempts_def)
  show "storage (snd (getStorageSync m)) = storage m"
    by (cases "storage m"; cases "memoryStorage m")
      (auto simp: getStorageSync_def)
qed

lemma getStorage_set: "storage m = Some s \<Longrightarrow> getStorage m = (s, m)"
  by (simp add: getStorage_def)

lemma storage_store_delete [simp]: "storage (store_delete s key m) = storage m"
  by (cases s) (simp_all add: store_delete_def split: prod.splits)

lemma storage_store_set [simp]: "storage (store_set s key r m) = storage m"
  by (cases s) (simp_all add: store_set_def split: prod.splits)

lemma storage_store_get [simp]: "storage (snd (store_get s key m)) = storage m"
  by (cases s) (simp_all add: store_get_def split: prod.splits)

lemma storage_store_get_eq: "store_get s key m = (r, m') \<Longrightarrow> storage m' = storage m"
  using storage_store_get[of s key m] by simp

subsection \<open>The synchronous API on each backend\<close>

lemma checkRateLimit_db:
  "storage m = Some TheDatabaseStorage \<Longrightarrow>
     checkRateLimit email now m = (notLimited MAX_ATTEMPTS, m)"
  by (simp add: checkRateLimit_def getStorageSync_db checkRateLimitSync_def)

lemma checkRateLimit_mem:
  assumes "storage m \<noteq> Some TheDatabaseStorage"
  shows "fst (checkRateLimit email now m) =
     (case the_attempts m (toLowerCase email) of
        None \<Rightarrow> notLimited MAX_ATTEMPTS
      | Some r \<Rightarrow>
          (case activeLock (lockedUntil r) now of
             Some l \<Rightarrow> limited (ceil_seconds (int l - int now))
           | None \<Rightarrow> if windowExpired r now then notLimited MAX_ATTEMPTS
                     else if count r \<ge> MAX_ATTEMPTS then limited (ceil_seconds (int LOCKOUT_MS))
                     else notLimited (MAX_ATTEMPTS - count r)))"
  using getStorageSync_mem[OF assms]
  by (auto simp: checkRateLimit_def checkRateLimitSync_def split: prod.splits option.splits)

lemma clearAttempts_db:
  "storage m = Some TheDatabaseStorage \<Longrightarrow>
     storage (clearAttempts email m) = Some TheDatabaseStorage"
  by (simp add: clearAttempts_def getStorageSync_db clearAttemptsAsync_def getStorage_set)

lemma clearAttempts_mem:
  assumes "storage m \<noteq> Some TheDatabaseStorage"
  shows "storage (clearAttempts email m) = storage m"
    and "the_attempts (clearAttempts email m) = (the_attempts m)(toLowerCase email := None)"
  using getStorageSync_mem[OF assms]
  by (auto simp: clearAttempts_def split: prod.splits)

lemma recordFailedAttempt_mem:
  assumes "storage m \<noteq> Some TheDatabaseStorage"
  shows "storage (recordFailedAttempt email now m) = storage m"
    and "the_attempts (recordFailedAttempt email now m) =
      (the_attempts m)(toLowerCase email \<mapsto>
        (case the_attempts m (toLowerCase email) of
           None \<Rightarrow> \<lparr>count = 1, firstAttempt = now, lockedUntil = None\<rparr>
         | Some r \<Rightarrow>
             if windowExpired r now then \<lparr>count = 1, firstAttempt = now, lockedUntil = None\<rparr>
             else if count r + 1 \<ge> MAX_ATTEMPTS
                  then r\<lparr>count := count r + 1, lockedUntil := Some (now + LOCKOUT_MS)\<rparr>
                  else r\<lparr>count := count r + 1\<rparr>))"
  using getStorageSync_mem[OF assms]
  by (auto simp: recordFailedAttempt_def Let_def split: prod.splits option.splits)

lemma recordFailedAttempt_db:
  "storage m = Some TheDatabaseStorage \<Longrightarrow>
     storage (recordFailedAttempt email now m) = Some TheDatabaseStorage"
  by (auto simp: recordFailedAttempt_def getStorageSync_db recordFailedAttemptAsync_def
      getStorage_set Let_def split: prod.splits option.splits dest: storage_store_get_eq)

lemma recordFailures_snoc:
  "recordFailures email (ts @ [t]) m = recordFailedAttempt email t (recordFailures email ts m)"
  by (simp add: recordFailures_def)

lemma recordFailures_db:
  "storage m = Some TheDatabaseStorage \<Longrightarrow>
     storage (recordFailures email ts m) = Some TheDatabaseStorage"
  by (induction ts rule: rev_induct)
    (simp_all add: recordFailures_snoc recordFailedAttempt_db, simp add: recordFailures_def)

text \<open>
  The record of an identity after a run of failures that starts with no record and stays
  within the window opened by the first failure.
\<close>

lemma recordFailures_mem:
  assumes mem: "storage m \<noteq> Some TheDatabaseStorage"
    and fresh: "the_attempts m (toLowerCase email) = None"
  shows "ts \<noteq> [] \<Longrightarrow> \<forall>t \<in> set ts. int t - int (hd ts) \<le> int WINDOW_MS \<Longrightarrow>
     storage (recordFailures email ts m) = storage m \<and>
     the_attempts (recordFailures email ts m) (toLowerCase email) =
       Some \<lparr>count = int (length ts), firstAttempt = hd ts,
             lockedUntil = (if int (length ts) \<ge> MAX_ATTEMPTS
                            then Some (last ts + LOCKOUT_MS) else None)\<rparr>"
proof (induction ts rule: rev_induct)
  case Nil
  then show ?case by simp
next
  case (snoc t ts)
  show ?case
  proof (cases "ts = []")
    case True
    then show ?thesis
      using mem fresh
      by (simp add: recordFailures_def recordFailedAttempt_mem MAX_ATTEMPTS_def)
  next
    case False
    then have hd: "hd (ts @ [t]) = hd ts" by simp
    have win: "\<forall>t \<in> set ts. int t - int (hd ts) \<le> int WINDOW_MS"
      using snoc.prems(2) hd by simp
    have t: "int t - int (hd ts) \<le> int WINDOW_MS"
      using snoc.prems(2) hd by simp
    note ih = snoc.IH[OF False win]
    have mem': "storage (recordFailures email ts m) \<noteq> Some TheDatabaseStorage"
      using ih mem by simp
    show ?thesis
      using ih t False
      by (simp add: recordFailures_snoc recordFailedAttempt_mem[OF mem'] windowExpired_def hd)
  qed
qed

subsection \<open>Fallback of the storage factory\<close>

lemma sim_getStorageSync:
  assumes "sim a b"
  shows "fst (getStorageSync a) = fst (getStorageSync b)"
    and "sim (snd (getStorageSync a)) (snd (getStorageSync b))"
  using assms
  by (cases "storage b"; cases "memoryStorage b"; simp add: sim_def getStorageSync_def)+

lemma sim_getStorage:
  assumes "sim a b"
  shows "fst (getStorage a) = TheMemoryStorage"
    and "fst (getStorage b) = TheMemoryStorage"
    and "sim (snd (getStorage a)) (snd (getStorage b))"
  using assms storage_ref_cases[of a]
  by (auto simp: sim_def getStorage_def db_get_def checkTableExists_def newDatabaseStorage_def
      checkDatabaseAvailable_def)

lemma sim_the_attempts: "sim a b \<Longrightarrow> the_attempts a = the_attempts b"
  by (simp add: sim_def the_attempts_def)

lemma sim_with_attempts: "sim a b \<Longrightarrow> sim (with_attempts f a) (with_attempts f b)"
  by (auto simp: sim_def with_attempts_def the_attempts_def)

lemma sim_mem: "sim a b \<Longrightarrow> storage a \<noteq> Some TheDatabaseStorage \<and> storage b \<noteq> Some TheDatabaseStorage"
  by (auto simp: sim_def)

lemma sim_checkRateLimitSync:
  assumes "sim a b"
  shows "fst (checkRateLimitSync TheMemoryStorage key now a) = fst (checkRateLimitSync TheMemoryStorage key now b)"
    and "sim (snd (checkRateLimitSync TheMemoryStorage key now a)) (snd (checkRateLimitSync TheMemoryStorage key now b))"
  using assms sim_the_attempts[OF assms] 
  by (auto simp: checkRateLimitSync_def sim_with_attempts split: option.splits)

lemma fst_getStorageSync_sim: "sim a b \<Longrightarrow> fst (getStorageSync b) = TheMemoryStorage"
  using getStorageSync_mem(1)[of b] by (auto simp: sim_def)

lemma sim_checkRateLimit:
  assumes "sim a b"
  shows "fst (checkRateLimit email now a) = fst (checkRateLimit email now b)"
    and "sim (snd (checkRateLimit email now a)) (snd (checkRateLimit email now b))"
  using sim_getStorageSync[OF assms] fst_getStorageSync_sim[OF assms]
    sim_checkRateLimitSync[of "snd (getStorageSync a)" "snd (getStorageSync b)" "toLowerCase email" now]
  by (auto simp: checkRateLimit_def split: prod.splits)


lemma sim_recordFailedAttempt:
  assumes "sim a b"
  shows "sim (recordFailedAttempt email now a) (recordFailedAttempt email now b)"
  using sim_getStorageSync[OF assms] fst_getStorageSync_sim[OF assms]
    sim_the_attempts[of "snd (getStorageSync a)" "snd (getStorageSync b)"]
  by (auto simp: recordFailedAttempt_def Let_def sim_with_attempts split: prod.splits option.splits)

lemma sim_clearAttempts:
  assumes "sim a b"
  shows "sim (clearAttempts email a) (clearAttempts email b)"
  using sim_getStorageSync[OF assms] fst_getStorageSync_sim[OF assms]
  by (auto simp: clearAttempts_def Let_def sim_with_attempts split: prod.splits option.splits)

lemma store_get_mem: "store_get TheMemoryStorage key m = (the_attempts m key, m)"
  by (simp add: store_get_def mem_get_def)

lemma store_set_mem: "store_set TheMemoryStorage key r m = with_attempts (\<lambda>a. a(key \<mapsto> r)) m"
  by (simp add: store_set_def mem_set_def)

lemma store_delete_mem: "store_delete TheMemoryStorage key m = with_attempts (\<lambda>a. a(key := None)) m"
  by (simp add: store_delete_def mem_delete_def)

lemma sim_checkRateLimitAsync:
  assumes "sim a b"
  shows "fst (checkRateLimitAsync email now a) = fst (checkRateLimitAsync email now b)"
    and "sim (snd (checkRateLimitAsync email now a)) (snd (checkRateLimitAsync email now b))"
  using sim_getStorage[OF assms]
    sim_the_attempts[of "snd (getStorage a)" "snd (getStorage b)"]
  by (auto simp: checkRateLimitAsync_def Let_def store_get_mem store_set_mem store_delete_mem
      sim_with_attempts split: prod.splits option.splits)

lemma sim_recordFailedAttemptAsync:
  assumes "sim a b"
  shows "sim (recordFailedAttemptAsync email now a) (recordFailedAttemptAsync email now b)"
  using sim_getStorage[OF assms]
    sim_the_attempts[of "snd (getStorage a)" "snd (getStorage b)"]
  by (auto simp: recordFailedAttemptAsync_def Let_def store_get_mem store_set_mem
      sim_with_attempts split: prod.splits option.splits)

lemma sim_clearAttemptsAsync:
  assumes "sim a b"
  shows "sim (clearAttemptsAsync email a) (clearAttemptsAsync email b)"
  using sim_getStorage[OF assms]
  by (auto simp: clearAttemptsAsync_def store_delete_mem sim_with_attempts split: prod.splits)

lemma sim_perform:
  assumes "sim a b"
  shows "fst (perform c a) = fst (perform c b)" and "sim (snd (perform c a)) (snd (perform c b))"
proof -
  show "fst (perform c a) = fst (perform c b)"
    using sim_checkRateLimit(1)[OF assms] sim_checkRateLimitAsync(1)[OF assms]
    by (cases c) (simp_all add: case_prod_beta)
  show "sim (snd (perform c a)) (snd (perform c b))"
    using sim_checkRateLimit(2)[OF assms] sim_checkRateLimitAsync(2)[OF assms]
      sim_recordFailedAttempt[OF assms] sim_clearAttempts[OF assms]
      sim_recordFailedAttemptAsync[OF assms] sim_clearAttemptsAsync[OF assms]
    by (cases c) (simp_all add: case_prod_beta)
qed

lemma sim_run: "sim a b \<Longrightarrow> run cs a = run cs b"
proof (induction cs arbitrary: a b)
  case Nil
  then show ?case by simp
next
  case (Cons c cs)
  from sim_perform[OF Cons.prems, of c] Cons.IH[of "snd (perform c a)" "snd (perform c b)"]
  show ?case by (simp add: case_prod_beta)
qed

subsection \<open>Locks and deletions\<close>

text \<open>
  What keeps an active lock: the check reports limited and changes nothing, the cleanup
  keeps the record, and a failure recorded within the window leaves the record locked.
\<close>

lemma checkRateLimit_locked:
  assumes mem: "storage m \<noteq> Some TheDatabaseStorage"
    and r: "the_attempts m (toLowerCase email) = Some r"
    and l: "activeLock (lockedUntil r) now = Some l"
  shows "fst (checkRateLimit email now m) = limited (ceil_seconds (int l - int now))"
    and "the_attempts (snd (checkRateLimit email now m)) = the_attempts m"
    and "storage (snd (checkRateLimit email now m)) = storage m"
  using getStorageSync_mem[OF mem] r l
  by (auto simp: checkRateLimit_def checkRateLimitSync_def split: prod.splits)

lemma mem_cleanup_keeps_active_lock:
  assumes "a key = Some r" and "activeLock (lockedUntil r) now = Some l"
  shows "mem_cleanup a now key = Some r"
  using assms
  by (auto simp: mem_cleanup_def activeLock_def truthy_def split: option.splits if_splits)

lemma recordFailedAttempt_in_window_keeps_lock:
  assumes mem: "storage m \<noteq> Some TheDatabaseStorage"
    and r: "the_attempts m (toLowerCase email) = Some r"
    and l: "activeLock (lockedUntil r) now = Some l"
    and w: "\<not> windowExpired r now"
  shows "\<exists>r'. the_attempts (recordFailedAttempt email now m) (toLowerCase email) = Some r'
           \<and> activeLock (lockedUntil r') now \<noteq> None"
  using r l w
  by (auto simp: recordFailedAttempt_mem[OF mem] activeLock_def LOCKOUT_MS_def
      split: option.splits if_splits)

text \<open>A deleted key has no record in either store.\<close>

lemma db_get_after_delete:
  assumes "db_delete d tbl key = (tbl', d')"
  shows "fst (db_get d' tbl' key) = None"
  using assms
  by (auto simp: db_delete_def db_get_def checkTableExists_def Let_def
      split: option.splits prod.splits if_splits bool.splits)

lemma store_get_after_delete:
  "fst (store_get s key (store_delete s key m)) = None"
proof (cases s)
  case TheMemoryStorage
  then show ?thesis
    by (simp add: store_get_def store_delete_def mem_get_def mem_delete_def)
next
  case TheDatabaseStorage
  obtain tbl' d' where dd: "db_delete
      (case databaseStorage m of None \<Rightarrow> newDatabaseStorage | Some d \<Rightarrow> d) (table m) key
      = (tbl', d')"
    by (cases "db_delete
      (case databaseStorage m of None \<Rightarrow> newDatabaseStorage | Some d \<Rightarrow> d) (table m) key")
  from db_get_after_delete[OF dd] TheDatabaseStorage dd show ?thesis
    by (simp add: store_get_def store_delete_def Let_def case_prod_beta)
qed

lemma clearAttemptsAsync_then_checkRateLimitAsync:
  "fst (checkRateLimitAsync email now (clearAttemptsAsync email m)) = notLimited MAX_ATTEMPTS"
proof -
  obtain s m1 where g: "getStorage m = (s, m1)" by (cases "getStorage m")
  have s1: "storage m1 = Some s"
    using g by (auto simp: getStorage_def Let_def split: option.splits if_splits prod.splits)
  have c: "clearAttemptsAsync email m = store_delete s (toLowerCase email) m1"
    using g by (simp add: clearAttemptsAsync_def)
  have g2: "getStorage (store_delete s (toLowerCase email) m1) = (s, store_delete s (toLowerCase email) m1)"
    by (rule getStorage_set) (simp add: s1)
  show ?thesis
    using store_get_after_delete[of s "toLowerCase email" m1]
    by (simp add: checkRateLimitAsync_def c g2 Let_def case_prod_beta)
qed

section \<open>Claims about the rate limiter\<close>

lemma ceil_seconds_near_lockout:
  assumes "0 \<le> d" "d \<le> 1000"
  shows "ceil_seconds (int LOCKOUT_MS) - 1 \<le> ceil_seconds (int LOCKOUT_MS - d)"
    and "ceil_seconds (int LOCKOUT_MS - d) \<le> ceil_seconds (int LOCKOUT_MS)"
  using assms by (simp_all add: ceil_seconds_def LOCKOUT_MS_def)

lemma storage_database_module: "storage database_module = Some TheDatabaseStorage"
  by (simp add: database_module_def getStorage_def initial_module_def)

lemma storage_initial_module: "storage (initial_module cfg tbl) = None"
  by (simp add: initial_module_def)

lemma the_attempts_initial_module: "the_attempts (initial_module cfg tbl) key = None"
  by (simp add: initial_module_def the_attempts_def)

text \<open>
  Claim C1, as stated, at the database backend: the identity has no record, five failures
  are recorded through \<open>recordFailedAttempt\<close> within one window, and the synchronous check
  still reports not limited, because \<open>checkRateLimitSync\<close> answers for every store that is
  not the memory storage without reading it.
\<close>

theorem C1_database_backend_counterexample:
  "the_attempts database_module (toLowerCase ''ann@example.org'') = None
   \<and> \<not> isLimited (fst (checkRateLimit ''ann@example.org'' 5000
          (recordFailures ''ann@example.org'' [1000, 2000, 3000, 4000, 5000] database_module)))"
proof -
  have "the_attempts database_module (toLowerCase ''ann@example.org'') = None"
    by (simp add: database_module_def getStorage_def initial_module_def the_attempts_def)
  moreover have "storage (recordFailures ''ann@example.org'' [1000, 2000, 3000, 4000, 5000]
      database_module) = Some TheDatabaseStorage"
    by (rule recordFailures_db) (rule storage_database_module)
  ultimately show ?thesis
    by (simp add: checkRateLimit_db notLimited_def)
qed

text \<open>
  Claim C1, amended: for every identity with no prior state, while the store in use is the
  in-memory storage (the database storage is not the active store), after exactly
  \<open>MAX_ATTEMPTS\<close> calls of \<open>recordFailedAttempt\<close> within one window, \<open>checkRateLimit\<close>
  called up to one second after the last failure reports limited, with
  \<open>retryAfter = ceil((lockedUntil - now) / 1000)\<close> for \<open>lockedUntil\<close> the time of the
  last failure plus \<open>LOCKOUT_MS\<close>; this is the lockout duration in seconds or one second
  less.
\<close>

theorem C1_lockout_after_max_attempts:
  assumes mem: "storage m \<noteq> Some TheDatabaseStorage"
    and fresh: "the_attempts m (toLowerCase email) = None"
    and len: "int (length ts) = MAX_ATTEMPTS"
    and win: "\<forall>t \<in> set ts. int t - int (hd ts) \<le> int WINDOW_MS"
    and after: "last ts \<le> now"
    and soon: "now \<le> last ts + 1000"
  shows "isLimited (fst (checkRateLimit email now (recordFailures email ts m)))
    \<and> retryAfter (fst (checkRateLimit email now (recordFailures email ts m)))
        = Some (ceil_seconds (int (last ts + LOCKOUT_MS) - int now))
    \<and> ceil_seconds (int LOCKOUT_MS) - 1 \<le> ceil_seconds (int (last ts + LOCKOUT_MS) - int now)
    \<and> ceil_seconds (int (last ts + LOCKOUT_MS) - int now) \<le> ceil_seconds (int LOCKOUT_MS)"
proof -
  have ne: "ts \<noteq> []" using len by (auto simp: MAX_ATTEMPTS_def)
  note rec = recordFailures_mem[OF mem fresh ne win]
  have mem': "storage (recordFailures email ts m) \<noteq> Some TheDatabaseStorage"
    using rec mem by simp
  have lock: "activeLock (Some (last ts + LOCKOUT_MS)) now = Some (last ts + LOCKOUT_MS)"
    using soon by (simp add: activeLock_def LOCKOUT_MS_def)
  have res: "fst (checkRateLimit email now (recordFailures email ts m))
      = limited (ceil_seconds (int (last ts + LOCKOUT_MS) - int now))"
    using rec len lock by (simp add: checkRateLimit_mem[OF mem'])
  have d: "int (last ts + LOCKOUT_MS) - int now = int LOCKOUT_MS - (int now - int (last ts))"
    by simp
  have b: "0 \<le> int now - int (last ts)" "int now - int (last ts) \<le> 1000"
    using after soon by simp_all
  show ?thesis
    unfolding res d using ceil_seconds_near_lockout[OF b] by (simp add: limited_def)
qed

text \<open>
  The theorem for C1 at a concrete run: five failures between 1000 and 5000 on the
  default store, checked at 5400; the retry time is 1800 seconds.
\<close>

theorem C1_lockout_after_max_attempts_witness:
  "storage (initial_module memory None) \<noteq> Some TheDatabaseStorage
   \<and> the_attempts (initial_module memory None) (toLowerCase ''Ann@Example.org'') = None
   \<and> int (length [1000, 2000, 3000, 4000, 5000 :: nat]) = MAX_ATTEMPTS
   \<and> isLimited (fst (checkRateLimit ''Ann@Example.org'' 5400
        (recordFailures ''Ann@Example.org'' [1000, 2000, 3000, 4000, 5000]
           (initial_module memory None))))
   \<and> retryAfter (fst (checkRateLimit ''Ann@Example.org'' 5400
        (recordFailures ''Ann@Example.org'' [1000, 2000, 3000, 4000, 5000]
           (initial_module memory None)))) = Some 1800"
proof -
  have w1: "storage (initial_module memory None) \<noteq> Some TheDatabaseStorage"
    by (simp add: storage_initial_module)
  have w2: "the_attempts (initial_module memory None) (toLowerCase ''Ann@Example.org'') = None"
    by (rule the_attempts_initial_module)
  from C1_lockout_after_max_attempts[OF w1 w2, of "[1000, 2000, 3000, 4000, 5000]" 5400]
  show ?thesis
    using w1 w2 by (simp add: MAX_ATTEMPTS_def WINDOW_MS_def LOCKOUT_MS_def ceil_seconds_def)
qed

text \<open>
  Claim C2 at a failing input. The record of \<open>locked_module\<close> is locked until 1805000 and
  its window, opened at 1000, lapses after 901000. At 901001 the lock is active and
  \<open>checkRateLimit\<close> reports limited; a call of \<open>recordFailedAttempt\<close> at that moment takes
  the branch for a lapsed window and replaces the locked record by a fresh one without a
  lock, after which \<open>checkRateLimit\<close> reports not limited with four attempts left.
\<close>

theorem C2_recordFailedAttempt_drops_active_lock:
  "the_attempts locked_module (toLowerCase ''ann@example.org'')
      = Some \<lparr>count = 5, firstAttempt = 1000, lockedUntil = Some 1805000\<rparr>
   \<and> fst (checkRateLimit ''ann@example.org'' 901001 locked_module) = limited 904
   \<and> the_attempts (recordFailedAttempt ''ann@example.org'' 901001 locked_module)
        (toLowerCase ''ann@example.org'')
      = Some \<lparr>count = 1, firstAttempt = 901001, lockedUntil = None\<rparr>
   \<and> fst (checkRateLimit ''ann@example.org'' 901001
        (recordFailedAttempt ''ann@example.org'' 901001 locked_module)) = notLimited 4"
proof -
  have mem: "storage (initial_module memory None) \<noteq> Some TheDatabaseStorage"
    by (simp add: storage_initial_module)
  have rec: "storage locked_module = None
     \<and> the_attempts locked_module (toLowerCase ''ann@example.org'')
         = Some \<lparr>count = 5, firstAttempt = 1000, lockedUntil = Some 1805000\<rparr>"
    using recordFailures_mem[where m = "initial_module memory None"
        and email = "''ann@example.org''" and ts = "[1000, 2000, 3000, 4000, 5000]",
        OF mem the_attempts_initial_module]
    by (simp add: locked_module_def storage_initial_module MAX_ATTEMPTS_def WINDOW_MS_def
        LOCKOUT_MS_def)
  have mem5: "storage locked_module \<noteq> Some TheDatabaseStorage"
    using rec by simp
  have c1: "fst (checkRateLimit ''ann@example.org'' 901001 locked_module) = limited 904"
    using rec by (simp add: checkRateLimit_mem[OF mem5] activeLock_def ceil_seconds_def)
  have mem6: "storage (recordFailedAttempt ''ann@example.org'' 901001 locked_module)
      \<noteq> Some TheDatabaseStorage"
    using mem5 by (simp add: recordFailedAttempt_mem[OF mem5])
  have r2: "the_attempts (recordFailedAttempt ''ann@example.org'' 901001 locked_module)
        (toLowerCase ''ann@example.org'')
      = Some \<lparr>count = 1, firstAttempt = 901001, lockedUntil = None\<rparr>"
    using rec by (simp add: recordFailedAttempt_mem[OF mem5] windowExpired_def WINDOW_MS_def)
  have c2: "fst (checkRateLimit ''ann@example.org'' 901001
        (recordFailedAttempt ''ann@example.org'' 901001 locked_module)) = notLimited 4"
    using r2
    by (simp add: checkRateLimit_mem[OF mem6] activeLock_def windowExpired_def WINDOW_MS_def
        MAX_ATTEMPTS_def)
  show ?thesis using rec c1 r2 c2 by simp
qed

text \<open>
  Claim C6: for every identity and every module state, whatever record the identity has
  (locked or not) and whichever store is in use, \<open>clearAttempts\<close> followed by
  \<open>checkRateLimit\<close> for the same identity reports not limited with
  \<open>remainingAttempts = MAX_ATTEMPTS\<close>; so does \<open>clearAttemptsAsync\<close> followed by
  \<open>checkRateLimitAsync\<close>.
\<close>

theorem C6_clear_then_check:
  "fst (checkRateLimit email now (clearAttempts email m))
     = \<lparr>isLimited = False, retryAfter = None, remainingAttempts = Some MAX_ATTEMPTS\<rparr>
   \<and> fst (checkRateLimitAsync email now (clearAttemptsAsync email m))
     = \<lparr>isLimited = False, retryAfter = None, remainingAttempts = Some MAX_ATTEMPTS\<rparr>"
proof (cases "storage m = Some TheDatabaseStorage")
  case True
  then show ?thesis
    by (simp add: checkRateLimit_db clearAttempts_db clearAttemptsAsync_then_checkRateLimitAsync
        notLimited_def)
next
  case False
  then have "storage (clearAttempts email m) \<noteq> Some TheDatabaseStorage"
    by (simp add: clearAttempts_mem)
  then show ?thesis using False
    by (simp add: checkRateLimit_mem clearAttempts_mem
        clearAttemptsAsync_then_checkRateLimitAsync notLimited_def)
qed

text \<open>
  Claim C7: for every sequence of calls of the check, record and clear functions
  (synchronous or asynchronous), started from the freshly loaded module, the results
  returned under \<^verbatim>\<open>auto\<close> with a database table that cannot be reached are the results
  returned under \<^verbatim>\<open>memory\<close>, whatever the state of the table there.
\<close>

theorem C7_auto_fallback_equals_memory:
  "run cs (initial_module auto None) = run cs (initial_module memory tbl)"
  by (rule sim_run) (simp add: sim_def initial_module_def)

text \<open>
  Claim C9: whenever the database storage is the active store, the synchronous
  \<open>checkRateLimit\<close> returns not limited with \<open>remainingAttempts = MAX_ATTEMPTS\<close> and
  leaves the module unchanged, for every identity, every clock reading and every content
  of the stores; this also holds after any run of recorded failures.
\<close>

theorem C9_sync_check_never_limits_on_database:
  assumes "storage m = Some TheDatabaseStorage"
  shows "checkRateLimit email now m
           = (\<lparr>isLimited = False, retryAfter = None, remainingAttempts = Some MAX_ATTEMPTS\<rparr>, m)
     \<and> fst (checkRateLimit email now (recordFailures email ts m))
           = \<lparr>isLimited = False, retryAfter = None, remainingAttempts = Some MAX_ATTEMPTS\<rparr>"
  using assms recordFailures_db[OF assms, of email ts]
  by (simp add: checkRateLimit_db notLimited_def)

text \<open>
  The theorem for C9 after six recorded failures of one identity on the database
  backend.
\<close>

theorem C9_sync_check_never_limits_on_database_witness:
  "storage database_module = Some TheDatabaseStorage
   \<and> fst (checkRateLimit ''bob@example.org'' 7000
        (recordFailures ''bob@example.org'' [1000, 2000, 3000, 4000, 5000, 6000] database_module))
      = \<lparr>isLimited = False, retryAfter = None, remainingAttempts = Some 5\<rparr>"
  using C9_sync_check_never_limits_on_database[OF storage_database_module,
      of "''bob@example.org''" 7000 "[1000, 2000, 3000, 4000, 5000, 6000]"]
  by (simp add: storage_database_module MAX_ATTEMPTS_def)

section \<open>Claims about the operation rate-limit middleware\<close>

lemma string_of_number_3600: "string_of_number (Some 3600) = ''3600''"
  by code_simp

text \<open>
  Claim C8: for every operation name, limit and window, when the input the middleware
  uses (the parsed input, or the raw input when the parsed one has no \<^verbatim>\<open>groupId\<close>) has a
  \<^verbatim>\<open>groupId\<close> \<open>g\<close>, the middleware first calls the check with the key
  \<open>operation:g\<close>; when the check reports limited it throws \<open>TOO_MANY_REQUESTS\<close> with a
  message that carries the retry time in seconds, records nothing and does not call
  \<open>next\<close>; otherwise it records the attempt under the same key and then calls \<open>next\<close>,
  whose result it returns.
\<close>

theorem C8_middleware_checks_then_records:
  assumes "truthyGroupId (if truthyGroupId input = None then rawInput else input) = Some g"
  shows "createRateLimitMiddleware check record operation maxAttempts windowMs
           input rawInput next s =
     (let key = operation @ '':'' @ g;
          res = fst (check key maxAttempts windowMs s);
          s1 = snd (check key maxAttempts windowMs s)
      in if isLimited res then
           (Inl (TRPCError TOO_MANY_REQUESTS
                   (''Too many '' @ operation @ '' attempts. Please try again in ''
                      @ string_of_number (retryAfter res) @ '' seconds.'')),
            s1, [CheckOperationRateLimit key maxAttempts windowMs])
         else
           (Inr (fst (next (record key maxAttempts windowMs s1))),
            snd (next (record key maxAttempts windowMs s1)),
            [CheckOperationRateLimit key maxAttempts windowMs,
             RecordOperationAttempt key maxAttempts windowMs, Next]))"
  using assms by (simp add: createRateLimitMiddleware_def Let_def case_prod_beta)

text \<open>
  The theorem for C8 on the limit of the expense creation, with the raw input
  \<^verbatim>\<open>{groupId: 'g1'}\<close> and no parsed input: once with the limit of the key used up, once
  with no attempt recorded.
\<close>

theorem C8_middleware_checks_then_records_witness:
  "truthyGroupId (if truthyGroupId None = None then Some \<lparr>groupId = Some ''g1''\<rparr> else None)
      = Some ''g1''
   \<and> fst (createGroupExpenseLimit sample_check sample_record
            None (Some \<lparr>groupId = Some ''g1''\<rparr>) sample_next exhausted)
      = Inl (TRPCError TOO_MANY_REQUESTS
              ''Too many create-expense attempts. Please try again in 3600 seconds.'')
   \<and> snd (snd (createGroupExpenseLimit sample_check sample_record
            None (Some \<lparr>groupId = Some ''g1''\<rparr>) sample_next exhausted))
      = [CheckOperationRateLimit ''create-expense:g1'' 100 3600000]
   \<and> fst (createGroupExpenseLimit sample_check sample_record
            None (Some \<lparr>groupId = Some ''g1''\<rparr>) sample_next no_attempts)
      = Inr ''handled''
   \<and> snd (snd (createGroupExpenseLimit sample_check sample_record
            None (Some \<lparr>groupId = Some ''g1''\<rparr>) sample_next no_attempts))
      = [CheckOperationRateLimit ''create-expense:g1'' 100 3600000,
         RecordOperationAttempt ''create-expense:g1'' 100 3600000, Next]"
proof -
  have g: "truthyGroupId (if truthyGroupId None = None then Some \<lparr>groupId = Some ''g1''\<rparr> else None)
      = Some ''g1''"
    by (simp add: truthyGroupId_def)
  have lim: "fst (sample_check ''create-expense:g1'' 100 3600000 exhausted) = limited 3600"
    by (simp add: sample_check_def exhausted_def ceil_seconds_def)
  have free: "fst (sample_check ''create-expense:g1'' 100 3600000 no_attempts) = notLimited 100"
    by (simp add: sample_check_def no_attempts_def)
  note a = C8_middleware_checks_then_records[OF g, of sample_check sample_record
      "''create-expense''" 100 3600000 sample_next exhausted]
  note b = C8_middleware_checks_then_records[OF g, of sample_check sample_record
      "''create-expense''" 100 3600000 sample_next no_attempts]
  show ?thesis
    using g
    by (simp add: createGroupExpenseLimit_def HOUR_MS_def a b lim free limited_def notLimited_def
        string_of_number_3600 sample_next_def Let_def)
qed

text \<open>
  Claim C10: when neither the parsed input nor the raw input has a \<^verbatim>\<open>groupId\<close> (the input
  is missing, has no such field, or has the empty string there), the middleware calls
  neither the check nor the record function and calls \<open>next\<close> on the unchanged state,
  returning its result.
\<close>

theorem C10_middleware_skips_without_groupId:
  assumes "truthyGroupId input = None" and "truthyGroupId rawInput = None"
  shows "createRateLimitMiddleware check record operation maxAttempts windowMs
           input rawInput next s =
     (Inr (fst (next s)), snd (next s), [Next])"
  using assms by (simp add: createRateLimitMiddleware_def Let_def case_prod_beta)

text \<open>
  The theorem for C10 on the limit of the expense creation, with no parsed input and a
  raw input without \<^verbatim>\<open>groupId\<close>, on a key whose limit is used up.
\<close>

theorem C10_middleware_skips_without_groupId_witness:
  "truthyGroupId None = None \<and> truthyGroupId (Some \<lparr>groupId = None\<rparr>) = None
   \<and> fst (createGroupExpenseLimit sample_check sample_record
            None (Some \<lparr>groupId = None\<rparr>) sample_next exhausted) = Inr ''handled''
   \<and> snd (snd (createGroupExpenseLimit sample_check sample_record
            None (Some \<lparr>groupId = None\<rparr>) sample_next exhausted)) = [Next]"
proof -
  have a: "truthyGroupId None = None" by (simp add: truthyGroupId_def)
  have b: "truthyGroupId (Some \<lparr>groupId = None\<rparr>) = None" by (simp add: truthyGroupId_def)
  from C10_middleware_skips_without_groupId[OF a b, of sample_check sample_record
      "''create-expense''" 100 HOUR_MS sample_next exhausted]
  show ?thesis
    using a b by (simp add: createGroupExpenseLimit_def sample_next_def)
qed

section \<open>Properties of the password prompt\<close>

lemma isRateLimited_lock:
  "lockedUntilState (snd (isRateLimited now st)) = lockedUntilState st"
  by (simp add: isRateLimited_def Let_def split: option.splits)

lemma activeLock_Some: "activeLock l now = Some n \<Longrightarrow> l = Some n \<and> now < n"
  by (auto simp: activeLock_def split: option.splits if_splits)

lemma remainingLockoutTime_pos:
  assumes "lockedUntilState st = Some l" and "now < l"
  shows "0 < remainingLockoutTime st now"
  using assms by (simp add: remainingLockoutTime_def ceil_seconds_def)

subsection \<open>The branches of the handler\<close>

lemma handleSubmit_blank:
  "trim (password st) = [] \<Longrightarrow>
     handleSubmit c props clk st br = (st\<lparr>error := Some ''errors.empty''\<rparr>, br, [])"
  by (simp add: handleSubmit_def)

lemma handleSubmit_limited:
  assumes "trim (password st) \<noteq> []" and "fst (isRateLimited (tCheck clk) st)"
  shows "handleSubmit c props clk st br =
     ((case activeLock (lockedUntilState st) (tLockout clk) of
         None \<Rightarrow> (snd (isRateLimited (tCheck clk) st))
                    \<lparr>lockedUntilState := Some (tLockout clk + LOCKOUT_DURATION_MS)\<rparr>
       | Some l \<Rightarrow> snd (isRateLimited (tCheck clk) st))\<lparr>error := Some ''errors.tooManyAttempts''\<rparr>,
      br, [])"
  using assms by (simp add: handleSubmit_def case_prod_beta Let_def)

lemma handleSubmit_unlimited:
  assumes "trim (password st) \<noteq> []" and "\<not> fst (isRateLimited (tCheck clk) st)"
  shows "handleSubmit c props clk st br =
     (let st2 = (snd (isRateLimited (tCheck clk) st))\<lparr>isLoading := True, error := None\<rparr> in
      case deriveKeys c props (password st) of
        (Threw, ev1) \<Rightarrow> (recordInvalid (tFailure clk) st2, br, ev1)
      | (Value (passwordKey, finalKey), ev1) \<Rightarrow>
          (case verifyPassword c props finalKey of
             (False, ev2) \<Rightarrow> (recordInvalid (tFailure clk) st2, br, ev1 @ ev2)
           | (True, ev2) \<Rightarrow>
               (case saveKeys c props passwordKey finalKey br of
                  (False, br', ev3) \<Rightarrow> (recordInvalid (tFailure clk) st2, br', ev1 @ ev2 @ ev3)
                | (True, br', ev3) \<Rightarrow>
                    (st2\<lparr>isLoading := False\<rparr>, br', ev1 @ ev2 @ ev3 @ [OnSuccess finalKey]))))"
  using assms by (simp add: handleSubmit_def case_prod_beta Let_def)

subsection \<open>The steps of an attempt\<close>

lemma deriveKeys_events:
  "filter isDecrypt (snd (deriveKeys c props pw)) = []"
  "filter isOnSuccess (snd (deriveKeys c props pw)) = []"
  by (auto simp: deriveKeys_def Let_def split: outcome.splits option.splits)

lemma verifyPassword_absent:
  "encryptedGroupName props = None \<Longrightarrow> verifyPassword c props finalKey = (True, [])"
  by (simp add: verifyPassword_def)

lemma verifyPassword_events:
  "filter isOnSuccess (snd (verifyPassword c props finalKey)) = []"
  by (auto simp: verifyPassword_def split: outcome.splits option.splits)

lemma saveKeys_events:
  "snd (snd (saveKeys c props passwordKey finalKey br)) =
     [LocalSetItem (ENCRYPTION_KEY_PREFIX @ promptGroupId props) (keyToBase64 c finalKey),
      SessionSetItem (SESSION_PWD_KEY_PREFIX @ promptGroupId props) (keyToBase64 c passwordKey)]"
  by (simp add: saveKeys_def Let_def split: outcome.splits)

lemma saveKeys_ok:
  "fst (saveKeys c props passwordKey finalKey br) = canWrite (sessionStorage br)"
  by (auto simp: saveKeys_def Let_def setItem_def split: outcome.splits)

text \<open>
  What does hold of the storage accesses: a read that throws is no stored state, a
  write of the lockout state that throws leaves the storage as it was, and a write of
  the key to \<^verbatim>\<open>localStorage\<close> that throws does not stop a successful attempt.
\<close>

lemma loadRateLimitState_unreadable:
  "\<not> canRead ls \<Longrightarrow> loadRateLimitState parse ls gid = None"
  by (simp add: loadRateLimitState_def getItem_def)

lemma loadRateLimitState_unparsable:
  "parse stored = Threw \<Longrightarrow> canRead ls \<Longrightarrow> items ls (getStorageKey gid) = Some stored \<Longrightarrow>
     loadRateLimitState parse ls gid = None"
  by (simp add: loadRateLimitState_def getItem_def)

lemma saveRateLimitState_unwritable:
  "\<not> canWrite ls \<Longrightarrow> saveRateLimitState stringify ls gid state = ls"
  by (simp add: saveRateLimitState_def setItem_def)

lemma handleSubmit_success:
  assumes nonblank: "trim (password st) \<noteq> []"
    and allowed: "\<not> fst (isRateLimited (tCheck clk) st)"
    and keys: "deriveKeys c props (password st) = (Value (passwordKey, finalKey), ev1)"
    and verified: "verifyPassword c props finalKey = (True, ev2)"
    and session: "canWrite (sessionStorage br)"
  shows "fst (handleSubmit c props clk st br)
           = (snd (isRateLimited (tCheck clk) st))\<lparr>isLoading := False, error := None\<rparr>"
    and "snd (snd (handleSubmit c props clk st br))
           = ev1 @ ev2 @ snd (snd (saveKeys c props passwordKey finalKey br)) @ [OnSuccess finalKey]"
  using keys verified saveKeys_ok[of c props passwordKey finalKey br] session
  by (simp_all add: handleSubmit_unlimited[OF nonblank allowed] case_prod_beta
      split: bool.splits)

subsection \<open>The concrete inputs\<close>

lemma trim_hunter2: "trim ''hunter2'' = ''hunter2''"
  by (simp add: trim_def isWhiteSpace_def)

lemma trim_blank: "trim ''  '' = []"
  by (simp add: trim_def isWhiteSpace_def)

lemma trim_no_break_space: "trim [CHR 0xA0, CHR '' '', CHR 0x09] = []"
  by (simp add: trim_def isWhiteSpace_def)

text \<open>A password of no-break spaces is blank: the handler stops at its first test.\<close>

lemma handleSubmit_no_break_space:
  "password st = [CHR 0xA0, CHR 0xA0] \<Longrightarrow>
     handleSubmit c props clk st br = (st\<lparr>error := Some ''errors.empty''\<rparr>, br, [])"
  by (simp add: handleSubmit_def trim_def isWhiteSpace_def)

lemma limited_five_failures: "fst (isRateLimited 6000 five_failures)"
  by (simp add: isRateLimited_def five_failures_def activeLock_def RATE_LIMIT_WINDOW_MS_def
      RATE_LIMIT_ATTEMPTS_def)

lemma limited_five_failures_blank: "fst (isRateLimited 6000 five_failures_blank)"
  by (simp add: isRateLimited_def five_failures_blank_def five_failures_def activeLock_def
      RATE_LIMIT_WINDOW_MS_def RATE_LIMIT_ATTEMPTS_def)

lemma first_try_allowed: "isRateLimited 6000 first_try = (False, first_try)"
  by (simp add: isRateLimited_def first_try_def activeLock_def RATE_LIMIT_ATTEMPTS_def)

lemma deriveKeys_legacy_group:
  "fst (deriveKeys toy_crypto legacy_group ''hunter2'') = Value (replicate 32 7, replicate 32 7)"
  by (simp add: deriveKeys_def toy_crypto_def legacy_group_def)

lemma deriveKeys_encrypted_group:
  "fst (deriveKeys toy_crypto encrypted_group ''hunter2'') = Value (replicate 32 7, replicate 32 7)"
  by (simp add: deriveKeys_def toy_crypto_def encrypted_group_def)

lemma verifyPassword_encrypted_group:
  "verifyPassword toy_crypto encrypted_group (replicate 32 7)
     = (True, [Decrypt ''sealed'' (replicate 32 7)])"
  by (simp add: verifyPassword_def toy_crypto_def encrypted_group_def)

lemma session_blocked: "\<not> canWrite (sessionStorage session_blocked_browser)"
  by (simp add: session_blocked_browser_def blocked_storage_def)

text \<open>
  An attempt whose password was verified and whose write to \<^verbatim>\<open>sessionStorage\<close> throws:
  the exception reaches the outer \<^verbatim>\<open>catch\<close>, which treats it as a wrong password.
\<close>

lemma handleSubmit_session_write_fails:
  assumes nonblank: "trim (password st) \<noteq> []"
    and allowed: "\<not> fst (isRateLimited (tCheck clk) st)"
    and keys: "deriveKeys c props (password st) = (Value (passwordKey, finalKey), ev1)"
    and verified: "verifyPassword c props finalKey = (True, ev2)"
    and blocked: "\<not> canWrite (sessionStorage br)"
  shows "fst (handleSubmit c props clk st br)
           = recordInvalid (tFailure clk)
               ((snd (isRateLimited (tCheck clk) st))\<lparr>isLoading := True, error := None\<rparr>)"
    and "snd (snd (handleSubmit c props clk st br))
           = ev1 @ ev2 @ snd (snd (saveKeys c props passwordKey finalKey br))"
  using keys verified saveKeys_ok[of c props passwordKey finalKey br] blocked
  by (simp_all add: handleSubmit_unlimited[OF nonblank allowed] case_prod_beta
      split: bool.splits)

lemma first_try_nonblank: "trim (password first_try) \<noteq> []"
  by (simp add: first_try_def trim_hunter2)

lemma first_try_not_limited: "\<not> fst (isRateLimited (tCheck submit_clock) first_try)"
  by (simp add: submit_clock_def first_try_allowed)

lemma first_try_after_check:
  "snd (isRateLimited (tCheck submit_clock) first_try) = first_try"
  by (simp add: submit_clock_def first_try_allowed)

lemma deriveKeys_first_try_legacy:
  "deriveKeys toy_crypto legacy_group (password first_try)
     = (Value (replicate 32 7, replicate 32 7),
        snd (deriveKeys toy_crypto legacy_group (password first_try)))"
  using deriveKeys_legacy_group
  by (simp add: first_try_def prod_eq_iff)

lemma deriveKeys_first_try_encrypted:
  "deriveKeys toy_crypto encrypted_group (password first_try)
     = (Value (replicate 32 7, replicate 32 7),
        snd (deriveKeys toy_crypto encrypted_group (password first_try)))"
  using deriveKeys_encrypted_group
  by (simp add: first_try_def prod_eq_iff)

lemma recordInvalid_first_try:
  "attempts (recordInvalid t (first_try\<lparr>isLoading := True, error := None\<rparr>)) = [t]"
  "error (recordInvalid t (first_try\<lparr>isLoading := True, error := None\<rparr>)) = Some ''errors.invalid''"
  by (simp_all add: recordInvalid_def first_try_def)

section \<open>Claims about the password prompt\<close>

text \<open>
  Claim C3 at a failing input. The group has no encrypted name, the password
  \<^verbatim>\<open>hunter2\<close> is submitted with no earlier attempt, and \<^verbatim>\<open>sessionStorage.setItem\<close> throws.
  The keys are derived and the verification passes without a call of \<^verbatim>\<open>decrypt\<close>; then
  the exception of the session write reaches the outer \<^verbatim>\<open>catch\<close>: a failed attempt is
  recorded at 6200, the invalid-password error is set, and \<^verbatim>\<open>onSuccess\<close> is not called.
  With a session storage that can be written, the same submission hands the key to
  \<^verbatim>\<open>onSuccess\<close> and records nothing.
\<close>

theorem C3_absent_probe_failure_recorded:
  "encryptedGroupName legacy_group = None
   \<and> fst (deriveKeys toy_crypto legacy_group (password first_try))
        = Value (replicate 32 7, replicate 32 7)
   \<and> verifyPassword toy_crypto legacy_group (replicate 32 7) = (True, [])
   \<and> attempts (fst (handleSubmit toy_crypto legacy_group submit_clock first_try
        session_blocked_browser)) = [6200]
   \<and> error (fst (handleSubmit toy_crypto legacy_group submit_clock first_try
        session_blocked_browser)) = Some ''errors.invalid''
   \<and> filter isOnSuccess (snd (snd (handleSubmit toy_crypto legacy_group submit_clock first_try
        session_blocked_browser))) = []
   \<and> filter isDecrypt (snd (snd (handleSubmit toy_crypto legacy_group submit_clock first_try
        session_blocked_browser))) = []
   \<and> attempts (fst (handleSubmit toy_crypto legacy_group submit_clock first_try
        working_browser)) = []
   \<and> filter isOnSuccess (snd (snd (handleSubmit toy_crypto legacy_group submit_clock first_try
        working_browser))) = [OnSuccess (replicate 32 7)]"
proof -
  have absent: "encryptedGroupName legacy_group = None"
    by (simp add: legacy_group_def)
  note verified = verifyPassword_absent[OF absent, of toy_crypto "replicate 32 7"]
  note fails = handleSubmit_session_write_fails[OF first_try_nonblank first_try_not_limited
      deriveKeys_first_try_legacy verified session_blocked]
  have writable: "canWrite (sessionStorage working_browser)"
    by (simp add: working_browser_def empty_storage_def)
  note succeeds = handleSubmit_success[OF first_try_nonblank first_try_not_limited
      deriveKeys_first_try_legacy verified writable]
  have d: "fst (deriveKeys toy_crypto legacy_group (password first_try))
        = Value (replicate 32 7, replicate 32 7)"
    using deriveKeys_legacy_group by (simp add: first_try_def)
  show ?thesis
    using absent d verified
    by (simp add: fails succeeds first_try_after_check recordInvalid_first_try
        deriveKeys_events saveKeys_events)
      (simp add: first_try_def submit_clock_def)
qed

text \<open>
  Claim C4, as stated, at a submission of a blank password: five attempts of the last
  minute are on record and no lockout has started, so the lockout check reports limited;
  the handler returns at its test for an empty password with the error for an empty
  password, starts no lockout and shows no remaining time.
\<close>

theorem C4_blank_password_counterexample:
  "fst (isRateLimited (tCheck submit_clock) five_failures_blank)
   \<and> error (fst (handleSubmit toy_crypto legacy_group submit_clock five_failures_blank
        working_browser)) = Some ''errors.empty''
   \<and> remainingLockoutTime
        (fst (handleSubmit toy_crypto legacy_group submit_clock five_failures_blank
           working_browser))
        (tLockout submit_clock) = 0"
proof -
  have b: "trim (password five_failures_blank) = []"
    by (simp add: five_failures_blank_def trim_blank)
  have l: "fst (isRateLimited (tCheck submit_clock) five_failures_blank)"
    using limited_five_failures_blank by (simp add: submit_clock_def)
  have r: "remainingLockoutTime (five_failures_blank\<lparr>error := Some ''errors.empty''\<rparr>)
      (tLockout submit_clock) = 0"
    by (simp add: remainingLockoutTime_def five_failures_blank_def five_failures_def)
  show ?thesis
    unfolding handleSubmit_blank[OF b] using l r by simp
qed

text \<open>
  Claim C4, amended: for every submission made while the lockout check reports limited
  (a lock is active, or the attempts of the last minute have reached the limit), the
  handler stops without a call to the outside, so neither the key derivation nor the
  decryption of the probe is invoked. When the password is not blank (it has a character
  that is not white space), the handler sets the error for too many attempts and a
  lockout is in force afterwards, with a positive remaining time; when the password is
  blank, the handler stops at its test for an empty password, with the error for an
  empty password.
\<close>

theorem C4_limited_submission_stops:
  assumes "fst (isRateLimited (tCheck clk) st)"
  shows "snd (snd (handleSubmit c props clk st br)) = []
     \<and> (if trim (password st) = []
        then error (fst (handleSubmit c props clk st br)) = Some ''errors.empty''
        else error (fst (handleSubmit c props clk st br)) = Some ''errors.tooManyAttempts''
           \<and> 0 < remainingLockoutTime (fst (handleSubmit c props clk st br)) (tLockout clk))"
proof (cases "trim (password st) = []")
  case True
  then show ?thesis by (simp add: handleSubmit_blank)
next
  case False
  note hs = handleSubmit_limited[OF False assms, of c props br]
  have "0 < remainingLockoutTime (fst (handleSubmit c props clk st br)) (tLockout clk)"
  proof (cases "activeLock (lockedUntilState st) (tLockout clk)")
    case None
    then show ?thesis
      unfolding hs
      by (simp add: remainingLockoutTime_pos[where l = "tLockout clk + LOCKOUT_DURATION_MS"]
          LOCKOUT_DURATION_MS_def)
  next
    case (Some n)
    from activeLock_Some[OF Some] show ?thesis
      unfolding hs using Some
      by (simp add: remainingLockoutTime_pos[where l = n] isRateLimited_lock)
  qed
  then show ?thesis using False hs by (simp split: option.splits)
qed

text \<open>
  The theorem for C4 at the submission of \<^verbatim>\<open>hunter2\<close> after five attempts of the last
  minute.
\<close>

theorem C4_limited_submission_stops_witness:
  "fst (isRateLimited (tCheck submit_clock) five_failures)
   \<and> snd (snd (handleSubmit toy_crypto legacy_group submit_clock five_failures
        working_browser)) = []
   \<and> error (fst (handleSubmit toy_crypto legacy_group submit_clock five_failures working_browser))
       = Some ''errors.tooManyAttempts''
   \<and> 0 < remainingLockoutTime
        (fst (handleSubmit toy_crypto legacy_group submit_clock five_failures working_browser))
        (tLockout submit_clock)"
proof -
  have l: "fst (isRateLimited (tCheck submit_clock) five_failures)"
    using limited_five_failures by (simp add: submit_clock_def)
  have nb: "trim (password five_failures) \<noteq> []"
    by (simp add: five_failures_def trim_hunter2)
  from C4_limited_submission_stops[OF l, of toy_crypto legacy_group working_browser] nb l
  show ?thesis by simp
qed

text \<open>
  Claim C5 at a failing input. The group has an encrypted name, the submitted password
  is the right one (\<^verbatim>\<open>decrypt\<close> returns), and \<^verbatim>\<open>sessionStorage.setItem\<close> throws. The write
  has no \<^verbatim>\<open>try\<close> of its own, so the exception reaches the outer \<^verbatim>\<open>catch\<close> of the handler:
  a failed attempt is recorded at 6200, the invalid-password error is set, and
  \<^verbatim>\<open>onSuccess\<close> is not called. With a session storage that can be written, the same
  submission succeeds.
\<close>

theorem C5_session_write_failure_counts_as_wrong_password:
  "verifyPassword toy_crypto encrypted_group (replicate 32 7)
        = (True, [Decrypt ''sealed'' (replicate 32 7)])
   \<and> \<not> canWrite (sessionStorage session_blocked_browser)
   \<and> attempts (fst (handleSubmit toy_crypto encrypted_group submit_clock first_try
        session_blocked_browser)) = [6200]
   \<and> error (fst (handleSubmit toy_crypto encrypted_group submit_clock first_try
        session_blocked_browser)) = Some ''errors.invalid''
   \<and> filter isOnSuccess (snd (snd (handleSubmit toy_crypto encrypted_group submit_clock
        first_try session_blocked_browser))) = []
   \<and> error (fst (handleSubmit toy_crypto encrypted_group submit_clock first_try
        working_browser)) = None
   \<and> filter isOnSuccess (snd (snd (handleSubmit toy_crypto encrypted_group submit_clock
        first_try working_browser))) = [OnSuccess (replicate 32 7)]"
proof -
  note verified = verifyPassword_encrypted_group
  note fails = handleSubmit_session_write_fails[OF first_try_nonblank first_try_not_limited
      deriveKeys_first_try_encrypted verified session_blocked]
  have writable: "canWrite (sessionStorage working_browser)"
    by (simp add: working_browser_def empty_storage_def)
  note succeeds = handleSubmit_success[OF first_try_nonblank first_try_not_limited
      deriveKeys_first_try_encrypted verified writable]
  show ?thesis
    using verified session_blocked
    by (simp add: fails succeeds first_try_after_check recordInvalid_first_try
        deriveKeys_events saveKeys_events)
      (simp add: submit_clock_def)
qed

end
